theory Spec2Isabelle
  imports Main "HOL-Library.Word"
begin

section \<open>Strings of the platform\<close>

text \<open>
  A JavaScript string is modelled by a \<^typ>\<open>string\<close>: the list of the bytes of its UTF-8
  text. The functions below only look for ASCII characters (digits, \<open>@\<close>, hexadecimal
  digits); every byte of a non-ASCII character is none of them, as the character itself is
  none of them in the source.
\<close>

definition isDigit :: "char \<Rightarrow> bool" where
  "isDigit c = (c \<in> set ''0123456789'')"

text \<open>\<open>s.replace(/\D/g, '')\<close>: scan the string, drop every character that \<open>\D\<close> matches.\<close>

fun replaceNonDigits :: "string \<Rightarrow> string" where
  "replaceNonDigits [] = []"
| "replaceNonDigits (c # cs) = (if isDigit c then c # replaceNonDigits cs else replaceNonDigits cs)"

fun startsWith :: "string \<Rightarrow> string \<Rightarrow> bool" where
  "startsWith s [] = True"
| "startsWith [] (p # ps) = False"
| "startsWith (c # cs) (p # ps) = (c = p \<and> startsWith cs ps)"

text \<open>\<open>s.includes(p)\<close>: \<open>p\<close> occurs at some position of \<open>s\<close>.\<close>

fun includes_str :: "string \<Rightarrow> string \<Rightarrow> bool" where
  "includes_str [] p = startsWith [] p"
| "includes_str (c # cs) p = (startsWith (c # cs) p \<or> includes_str cs p)"

text \<open>A \<open>Buffer\<close> is a list of bytes.\<close>

type_synonym byte = "8 word"

type_synonym bytes = "byte list"

section \<open>WhatsApp adapter: recipient identifiers\<close>

text \<open>\<open>WhatsAppAdapter.normalizeJid\<close> (whatsapp-adapter.ts, lines 538-548).\<close>

definition normalizeJid :: "string \<Rightarrow> string" where
  "normalizeJid identifier =
     (let cleaned = replaceNonDigits identifier
      in if \<not> includes_str identifier ''@'' then cleaned @ ''@s.whatsapp.net'' else identifier)"

section \<open>Effects of the asynchronous code\<close>

text \<open>
  A method of an adapter is a state transformer that also says how it ended and what it did:
  \<open>None\<close> when the returned promise resolves, \<open>Some e\<close> when it rejects (or the method
  throws) with \<open>e\<close>; the fields of the object after the call (a throw does not undo
  assignments); and the observable actions, in order.
\<close>

datatype js_error = TypeError string | SyntaxError string | Error string | NonError

fun message :: "js_error \<Rightarrow> string option" where
  "message (TypeError m) = Some m"
| "message (SyntaxError m) = Some m"
| "message (Error m) = Some m"
| "message NonError = None"

datatype ConnectionStatus = DISCONNECTED | CONNECTING | CONNECTED | ERROR

datatype log_level = LogDebug | LogInfo | LogWarn | LogError

datatype effect =
    Log log_level string
  | StatusChange ConnectionStatus "string option"
  | SetTimeout nat
  | Emit string
  | Call string

type_synonym 's prog = "'s \<Rightarrow> js_error option \<times> 's \<times> effect list"

definition skip :: "'s prog" where
  "skip s = (None, s, [])"

definition throw :: "js_error \<Rightarrow> 's prog" where
  "throw e s = (Some e, s, [])"

definition effect :: "effect \<Rightarrow> 's prog" where
  "effect e s = (None, s, [e])"

definition modify :: "('s \<Rightarrow> 's) \<Rightarrow> 's prog" where
  "modify f s = (None, f s, [])"

text \<open>A call of a platform function named \<open>f\<close> whose outcome is \<open>r\<close>.\<close>

definition call :: "string \<Rightarrow> js_error option \<Rightarrow> 's prog" where
  "call f r s = (r, s, [Call f])"

definition seq :: "'s prog \<Rightarrow> 's prog \<Rightarrow> 's prog" where
  "seq p q s =
     (case p s of
        (Some e, s', es) \<Rightarrow> (Some e, s', es)
      | (None, s', es) \<Rightarrow> (case q s' of (r, s'', es') \<Rightarrow> (r, s'', es @ es')))"

fun block :: "'s prog list \<Rightarrow> 's prog" where
  "block [] = skip"
| "block (p # ps) = seq p (block ps)"

definition tryCatch :: "'s prog \<Rightarrow> (js_error \<Rightarrow> 's prog) \<Rightarrow> 's prog" where
  "tryCatch p h s =
     (case p s of
        (Some e, s', es) \<Rightarrow> (case h e s' of (r, s'', es') \<Rightarrow> (r, s'', es @ es'))
      | (None, s', es) \<Rightarrow> (None, s', es))"

section \<open>Channel adapters: shared fields\<close>

record 'cfg ChannelAdapterOptions =
  config :: 'cfg
  onStatusChange :: "ConnectionStatus \<Rightarrow> string option \<Rightarrow> js_error option"

record ChannelStats =
  messagesReceived :: nat
  messagesSent :: nat
  errors :: nat
  uptime :: nat

text \<open>
  The fields every adapter class declares. \<open>options\<close> (and with it \<open>config\<close>) is declared
  without an initialiser and assigned by \<open>initialize\<close>: it is \<open>None\<close> before.
\<close>

record 'cfg adapter =
  options :: "'cfg ChannelAdapterOptions option"
  status :: ConnectionStatus
  stats :: ChannelStats
  isShuttingDown :: bool

definition stats0 :: ChannelStats where
  "stats0 = \<lparr>messagesReceived = 0, messagesSent = 0, errors = 0, uptime = 0\<rparr>"

text \<open>
  \<open>this.options.logger.info(...)\<close> and its siblings: reading a property of the
  undefined \<open>options\<close> throws a TypeError; the logger itself does not fail.
\<close>

definition logger :: "log_level \<Rightarrow> string \<Rightarrow> ('cfg, 'z) adapter_scheme prog" where
  "logger l m s =
     (case options s of
        None \<Rightarrow> (Some (TypeError ''Cannot read properties of undefined''), s, [])
      | Some opts \<Rightarrow> (None, s, [Log l m]))"

text \<open>
  \<open>await this.options.onStatusChange(st, detail)\<close>: the callback is called, which the
  action \<open>StatusChange\<close> records, and its promise resolves or rejects.
\<close>

definition notifyStatus :: "ConnectionStatus \<Rightarrow> string option \<Rightarrow> ('cfg, 'z) adapter_scheme prog" where
  "notifyStatus st detail s =
     (case options s of
        None \<Rightarrow> (Some (TypeError ''Cannot read properties of undefined''), s, [])
      | Some opts \<Rightarrow> (onStatusChange opts st detail, s, [StatusChange st detail]))"

definition setStatus :: "ConnectionStatus \<Rightarrow> ('cfg, 'z) adapter_scheme prog" where
  "setStatus st = modify (\<lambda>s. s\<lparr>status := st\<rparr>)"

text \<open>\<open>error instanceof Error ? error.message : 'Connection failed'\<close>\<close>

definition failureDetail :: "js_error \<Rightarrow> string" where
  "failureDetail e = (case message e of Some m \<Rightarrow> m | None \<Rightarrow> ''Connection failed'')"

section \<open>WhatsApp adapter\<close>

record WhatsAppConfig =
  sessionId :: string
  phoneNumber :: "string option"

text \<open>The socket of the Baileys library, as far as the adapter uses it: the outcome of \<open>logout()\<close>.\<close>

record WASocket =
  logout :: "js_error option"

text \<open>The library functions \<open>startSocket\<close> calls, each with its outcome.\<close>

record BaileysLibrary =
  fetchLatestBaileysVersion :: "js_error option"
  useMultiFileAuthState :: "js_error option"
  makeWASocket :: "js_error + WASocket"

record WhatsAppAdapter = "WhatsAppConfig adapter" +
  socket :: "WASocket option"
  qrCode :: "string option"
  reconnectAttempts :: nat
  maxReconnectAttempts :: nat

text \<open>The field initialisers of the class (whatsapp-adapter.ts, lines 54-70).\<close>

definition WhatsAppAdapter_new :: WhatsAppAdapter where
  "WhatsAppAdapter_new =
     \<lparr>options = None, status = DISCONNECTED, stats = stats0, isShuttingDown = False,
      socket = None, qrCode = None, reconnectAttempts = 0, maxReconnectAttempts = 10\<rparr>"

text \<open>
  \<open>initialize\<close> (lines 75-92): \<open>mkdir\<close> is the outcome of creating the session directory.
\<close>

definition WhatsAppAdapter_initialize ::
  "WhatsAppConfig ChannelAdapterOptions \<Rightarrow> js_error option \<Rightarrow> WhatsAppAdapter prog" where
  "WhatsAppAdapter_initialize opts mkdir =
     block [modify (\<lambda>s. s\<lparr>options := Some opts\<rparr>),
            call ''fs.mkdir'' mkdir,
            logger LogInfo ''WhatsApp adapter initialized'']"

text \<open>\<open>startSocket\<close> (lines 132-163).\<close>

definition WhatsAppAdapter_startSocket :: "BaileysLibrary \<Rightarrow> WhatsAppAdapter prog" where
  "WhatsAppAdapter_startSocket lib =
     tryCatch
       (block [call ''fetchLatestBaileysVersion'' (fetchLatestBaileysVersion lib),
               logger LogInfo ''Using Baileys version'',
               call ''useMultiFileAuthState'' (useMultiFileAuthState lib),
               (case makeWASocket lib of
                  Inl e \<Rightarrow> call ''makeWASocket'' (Some e)
                | Inr sock \<Rightarrow>
                    block [call ''makeWASocket'' None,
                           modify (\<lambda>s. s\<lparr>socket := Some sock\<rparr>),
                           effect (Call ''setupEventHandlers'')])])
       (\<lambda>error. block [logger LogError ''Failed to start WhatsApp socket'', throw error])"

text \<open>\<open>connect\<close> (lines 97-127).\<close>

definition WhatsAppAdapter_connect :: "BaileysLibrary \<Rightarrow> WhatsAppAdapter prog" where
  "WhatsAppAdapter_connect lib s =
     (if status s = CONNECTED then logger LogWarn ''WhatsApp already connected'' s
      else
        tryCatch
          (block [setStatus CONNECTING,
                  notifyStatus CONNECTING None,
                  logger LogInfo ''Connecting to WhatsApp...'',
                  WhatsAppAdapter_startSocket lib])
          (\<lambda>error. block [logger LogError ''Failed to connect to WhatsApp'',
                           setStatus ERROR,
                           notifyStatus ERROR (Some (failureDetail error)),
                           throw error]) s)"

text \<open>\<open>DisconnectReason.loggedOut\<close> of the Baileys library.\<close>

definition DisconnectReason_loggedOut :: nat where
  "DisconnectReason_loggedOut = 401"

text \<open>
  \<open>handleConnectionClose\<close> (lines 232-266). The argument is
  \<open>lastDisconnect?.error?.output?.statusCode\<close>, \<open>None\<close> when it is undefined.
  \<open>SetTimeout d\<close> is the timer that calls \<open>startSocket\<close> after \<open>d\<close> milliseconds.
\<close>

definition WhatsAppAdapter_handleConnectionClose :: "nat option \<Rightarrow> WhatsAppAdapter prog" where
  "WhatsAppAdapter_handleConnectionClose statusCode =
     (let shouldReconnect = (statusCode \<noteq> Some DisconnectReason_loggedOut) in
      block [logger LogInfo ''WhatsApp connection closed'',
             (\<lambda>s. if shouldReconnect \<and> \<not> isShuttingDown s then
                     (let delay = min (1000 * 2 ^ reconnectAttempts s) 30000 in
                      if reconnectAttempts s < maxReconnectAttempts s then
                        block [modify (\<lambda>s. s\<lparr>reconnectAttempts := reconnectAttempts s + 1\<rparr>),
                               logger LogInfo ''Reconnecting to WhatsApp...'',
                               effect (SetTimeout delay)] s
                      else
                        block [setStatus ERROR,
                               notifyStatus ERROR (Some ''Max reconnection attempts reached'')] s)
                   else
                     block [setStatus DISCONNECTED, notifyStatus DISCONNECTED None] s)])"

text \<open>\<open>handleConnectionOpen\<close> (lines 271-283).\<close>

definition WhatsAppAdapter_handleConnectionOpen :: "WhatsAppAdapter prog" where
  "WhatsAppAdapter_handleConnectionOpen =
     block [modify (\<lambda>s. s\<lparr>reconnectAttempts := 0, qrCode := None, status := CONNECTED\<rparr>),
            logger LogInfo ''WhatsApp connected successfully'',
            notifyStatus CONNECTED None,
            effect (Emit ''ready'')]"

text \<open>\<open>disconnect\<close> (lines 576-592).\<close>

definition WhatsAppAdapter_disconnect :: "WhatsAppAdapter prog" where
  "WhatsAppAdapter_disconnect =
     block [modify (\<lambda>s. s\<lparr>isShuttingDown := True\<rparr>),
            logger LogInfo ''Disconnecting from WhatsApp...'',
            (\<lambda>s. case socket s of
                    Some sock \<Rightarrow>
                      block [call ''socket.logout'' (logout sock),
                             modify (\<lambda>s. s\<lparr>socket := None\<rparr>)] s
                  | None \<Rightarrow> skip s),
            setStatus DISCONNECTED,
            notifyStatus DISCONNECTED None,
            logger LogInfo ''WhatsApp disconnected'']"

text \<open>
  A run of connection events: each \<open>connection.update\<close> with \<open>connection === 'close'\<close> is
  handled by \<open>handleConnectionClose\<close>, each with \<open>'open'\<close> by \<open>handleConnectionOpen\<close>
  (\<open>handleConnectionUpdate\<close>, lines 222-226). The run collects the actions of all handlers; a
  handler that rejects does not stop the later events from being handled.
\<close>

datatype connection_update = Close "nat option" | Open

fun WhatsAppAdapter_handleEvent :: "connection_update \<Rightarrow> WhatsAppAdapter prog" where
  "WhatsAppAdapter_handleEvent (Close statusCode) = WhatsAppAdapter_handleConnectionClose statusCode"
| "WhatsAppAdapter_handleEvent Open = WhatsAppAdapter_handleConnectionOpen"

fun WhatsAppAdapter_run :: "connection_update list \<Rightarrow> WhatsAppAdapter \<Rightarrow> WhatsAppAdapter \<times> effect list" where
  "WhatsAppAdapter_run [] s = (s, [])"
| "WhatsAppAdapter_run (u # us) s =
     (case WhatsAppAdapter_handleEvent u s of
        (r, s', es) \<Rightarrow> (case WhatsAppAdapter_run us s' of (s'', es') \<Rightarrow> (s'', es @ es')))"

fun isTimer :: "effect \<Rightarrow> bool" where
  "isTimer (SetTimeout d) = True"
| "isTimer e = False"

section \<open>Telegram adapter\<close>

record TelegramConfig =
  botToken :: string
  botUsername :: "string option"
  webhookUrl :: "string option"
  webhookSecret :: "string option"

text \<open>
  The grammY bot and runner, as far as the adapter uses them: the outcomes of the calls
  \<open>bot.api.deleteWebhook()\<close>, \<open>bot.api.setWebhook(...)\<close> and \<open>runner.stop()\<close>.
\<close>

record Bot =
  deleteWebhook :: "js_error option"
  setWebhook :: "js_error option"

record Runner =
  stop :: "js_error option"

record GrammyLibrary =
  newBot :: "js_error + Bot"
  run :: Runner

record TelegramAdapter = "TelegramConfig adapter" +
  bot :: "Bot option"
  runner :: "Runner option"

definition TelegramAdapter_new :: TelegramAdapter where
  "TelegramAdapter_new =
     \<lparr>options = None, status = DISCONNECTED, stats = stats0, isShuttingDown = False,
      bot = None, runner = None\<rparr>"

definition TelegramAdapter_initialize :: "TelegramConfig ChannelAdapterOptions \<Rightarrow> TelegramAdapter prog" where
  "TelegramAdapter_initialize opts =
     block [modify (\<lambda>s. s\<lparr>options := Some opts\<rparr>),
            logger LogInfo ''Telegram adapter initialized'']"

text \<open>
  \<open>this.config.webhookUrl\<close>, truthy: \<open>Some url\<close> with a non-empty \<open>url\<close>. Reading it
  when \<open>config\<close> is undefined throws a TypeError.
\<close>

definition configWebhookUrl :: "TelegramAdapter \<Rightarrow> js_error + string option" where
  "configWebhookUrl s =
     (case options s of
        None \<Rightarrow> Inl (TypeError ''Cannot read properties of undefined'')
      | Some opts \<Rightarrow>
          (case webhookUrl (config opts) of
             None \<Rightarrow> Inr None
           | Some url \<Rightarrow> if url = [] then Inr None else Inr (Some url)))"

text \<open>\<open>startPolling\<close> (lines 485-503).\<close>

definition TelegramAdapter_startPolling :: "GrammyLibrary \<Rightarrow> TelegramAdapter prog" where
  "TelegramAdapter_startPolling lib s =
     (case bot s of
        None \<Rightarrow> skip s
      | Some b \<Rightarrow>
          block [logger LogInfo ''Starting Telegram bot in polling mode'',
                 call ''bot.api.deleteWebhook'' (deleteWebhook b),
                 effect (Call ''run''),
                 modify (\<lambda>s. s\<lparr>runner := Some (run lib)\<rparr>),
                 logger LogInfo ''Telegram bot polling started''] s)"

text \<open>\<open>startWebhook\<close> (lines 508-521).\<close>

definition TelegramAdapter_startWebhook :: "TelegramAdapter prog" where
  "TelegramAdapter_startWebhook s =
     (case bot s of
        None \<Rightarrow> skip s
      | Some b \<Rightarrow>
          (case configWebhookUrl s of
             Inl e \<Rightarrow> throw e s
           | Inr None \<Rightarrow> skip s
           | Inr (Some url) \<Rightarrow>
               block [logger LogInfo ''Setting up Telegram webhook'',
                      call ''bot.api.setWebhook'' (setWebhook b),
                      logger LogInfo ''Telegram webhook configured''] s))"

text \<open>\<open>startBot\<close> (lines 468-480).\<close>

definition TelegramAdapter_startBot :: "GrammyLibrary \<Rightarrow> TelegramAdapter prog" where
  "TelegramAdapter_startBot lib s =
     (case bot s of
        None \<Rightarrow> throw (Error ''Bot not initialized'') s
      | Some b \<Rightarrow>
          (case configWebhookUrl s of
             Inl e \<Rightarrow> throw e s
           | Inr (Some url) \<Rightarrow> TelegramAdapter_startWebhook s
           | Inr None \<Rightarrow> TelegramAdapter_startPolling lib s))"

text \<open>
  \<open>connect\<close> (lines 71-111). \<open>new Bot(this.config.botToken)\<close> reads \<open>config\<close>, which is
  defined here: the callback before it has already read \<open>options\<close>.
\<close>

definition TelegramAdapter_connect :: "GrammyLibrary \<Rightarrow> TelegramAdapter prog" where
  "TelegramAdapter_connect lib s =
     (if status s = CONNECTED then logger LogWarn ''Telegram already connected'' s
      else
        tryCatch
          (block [setStatus CONNECTING,
                  notifyStatus CONNECTING None,
                  logger LogInfo ''Connecting to Telegram...'',
                  (case newBot lib of
                     Inl e \<Rightarrow> call ''new Bot'' (Some e)
                   | Inr b \<Rightarrow> block [call ''new Bot'' None, modify (\<lambda>s. s\<lparr>bot := Some b\<rparr>)]),
                  effect (Call ''setupMiddleware''),
                  effect (Call ''setupHandlers''),
                  TelegramAdapter_startBot lib,
                  setStatus CONNECTED,
                  notifyStatus CONNECTED None,
                  logger LogInfo ''Telegram bot connected successfully''])
          (\<lambda>error. block [logger LogError ''Failed to connect to Telegram'',
                           setStatus ERROR,
                           notifyStatus ERROR (Some (failureDetail error)),
                           throw error]) s)"

text \<open>\<open>disconnect\<close> (lines 664-683).\<close>

definition TelegramAdapter_disconnect :: "TelegramAdapter prog" where
  "TelegramAdapter_disconnect =
     block [modify (\<lambda>s. s\<lparr>isShuttingDown := True\<rparr>),
            logger LogInfo ''Disconnecting from Telegram...'',
            (\<lambda>s. case runner s of
                    Some r \<Rightarrow> block [call ''runner.stop'' (stop r), modify (\<lambda>s. s\<lparr>runner := None\<rparr>)] s
                  | None \<Rightarrow> skip s),
            (\<lambda>s. case bot s of
                    None \<Rightarrow> skip s
                  | Some b \<Rightarrow>
                      (case configWebhookUrl s of
                         Inl e \<Rightarrow> throw e s
                       | Inr (Some url) \<Rightarrow> call ''bot.api.deleteWebhook'' (deleteWebhook b) s
                       | Inr None \<Rightarrow> skip s)),
            modify (\<lambda>s. s\<lparr>bot := None\<rparr>),
            setStatus DISCONNECTED,
            notifyStatus DISCONNECTED None,
            logger LogInfo ''Telegram bot disconnected'']"

section \<open>Discord adapter\<close>

record DiscordConfig =
  discordBotToken :: string
  applicationId :: string
  guildId :: "string option"
  intents :: "string list"

text \<open>
  The discord.js client, as far as the adapter uses it: the outcomes of \<open>login\<close> and
  \<open>destroy\<close>; and the library: the client constructor and the REST call that registers
  the slash commands.
\<close>

record Client =
  login :: "js_error option"
  destroy :: "js_error option"

record DiscordLibrary =
  newClient :: "js_error + Client"
  restPut :: "js_error option"

record DiscordAdapter = "DiscordConfig adapter" +
  client :: "Client option"

definition DiscordAdapter_new :: DiscordAdapter where
  "DiscordAdapter_new =
     \<lparr>options = None, status = DISCONNECTED, stats = stats0, isShuttingDown = False,
      client = None\<rparr>"

definition DiscordAdapter_initialize :: "DiscordConfig ChannelAdapterOptions \<Rightarrow> DiscordAdapter prog" where
  "DiscordAdapter_initialize opts =
     block [modify (\<lambda>s. s\<lparr>options := Some opts\<rparr>),
            logger LogInfo ''Discord adapter initialized'']"

text \<open>\<open>registerSlashCommands\<close> (lines 1082-1122): a failure of the REST call is logged.\<close>

definition DiscordAdapter_registerSlashCommands :: "DiscordLibrary \<Rightarrow> DiscordAdapter prog" where
  "DiscordAdapter_registerSlashCommands lib s =
     (case client s of
        None \<Rightarrow> skip s
      | Some c \<Rightarrow>
          tryCatch
            (block [call ''rest.put'' (restPut lib),
                    logger LogInfo ''Slash commands registered''])
            (\<lambda>error. logger LogError ''Failed to register slash commands'') s)"

text \<open>
  \<open>connect\<close> (lines 784-828). \<open>parseIntents\<close>, which only maps the configured names to
  numbers for the constructor of the client, is part of \<open>new Client\<close> here.
\<close>

definition DiscordAdapter_connect :: "DiscordLibrary \<Rightarrow> DiscordAdapter prog" where
  "DiscordAdapter_connect lib s =
     (if status s = CONNECTED then logger LogWarn ''Discord already connected'' s
      else
        tryCatch
          (block [setStatus CONNECTING,
                  notifyStatus CONNECTING None,
                  logger LogInfo ''Connecting to Discord...'',
                  (case newClient lib of
                     Inl e \<Rightarrow> call ''new Client'' (Some e)
                   | Inr c \<Rightarrow>
                       block [call ''new Client'' None,
                              modify (\<lambda>s. s\<lparr>client := Some c\<rparr>),
                              effect (Call ''setupEventHandlers''),
                              call ''client.login'' (login c)]),
                  DiscordAdapter_registerSlashCommands lib,
                  setStatus CONNECTED,
                  notifyStatus CONNECTED None,
                  logger LogInfo ''Discord bot connected successfully''])
          (\<lambda>error. block [logger LogError ''Failed to connect to Discord'',
                           setStatus ERROR,
                           notifyStatus ERROR (Some (failureDetail error)),
                           throw error]) s)"

text \<open>\<open>attemptReconnect\<close> (lines 1248-1260).\<close>

definition DiscordAdapter_attemptReconnect :: "DiscordLibrary \<Rightarrow> DiscordAdapter prog" where
  "DiscordAdapter_attemptReconnect lib =
     block [logger LogInfo ''Attempting to reconnect to Discord...'',
            tryCatch
              (block [(\<lambda>s. case client s of
                              Some c \<Rightarrow> call ''client.destroy'' (destroy c) s
                            | None \<Rightarrow> skip s),
                      DiscordAdapter_connect lib])
              (\<lambda>error. logger LogError ''Failed to reconnect to Discord'')]"

text \<open>The handler of \<open>Events.ShardDisconnect\<close> (lines 896-901).\<close>

definition DiscordAdapter_onShardDisconnect :: "DiscordLibrary \<Rightarrow> DiscordAdapter prog" where
  "DiscordAdapter_onShardDisconnect lib =
     block [logger LogWarn ''Discord client disconnected'',
            (\<lambda>s. if \<not> isShuttingDown s then DiscordAdapter_attemptReconnect lib s else skip s)]"

text \<open>\<open>disconnect\<close> (lines 1265-1279).\<close>

definition DiscordAdapter_disconnect :: "DiscordAdapter prog" where
  "DiscordAdapter_disconnect =
     block [modify (\<lambda>s. s\<lparr>isShuttingDown := True\<rparr>),
            logger LogInfo ''Disconnecting from Discord...'',
            (\<lambda>s. case client s of
                    Some c \<Rightarrow>
                      block [call ''client.destroy'' (destroy c),
                             modify (\<lambda>s. s\<lparr>client := None\<rparr>)] s
                  | None \<Rightarrow> skip s),
            setStatus DISCONNECTED,
            notifyStatus DISCONNECTED None,
            logger LogInfo ''Discord bot disconnected'']"

text \<open>A run of shard disconnects, collecting the actions of all handlers.\<close>

fun DiscordAdapter_run :: "DiscordLibrary \<Rightarrow> nat \<Rightarrow> DiscordAdapter \<Rightarrow> DiscordAdapter \<times> effect list" where
  "DiscordAdapter_run lib 0 s = (s, [])"
| "DiscordAdapter_run lib (Suc n) s =
     (case DiscordAdapter_onShardDisconnect lib s of
        (r, s', es) \<Rightarrow> (case DiscordAdapter_run lib n s' of (s'', es') \<Rightarrow> (s'', es @ es')))"

section \<open>Realtime gateway: shutdown\<close>

text \<open>
  The Socket.IO server and the Redis clients, as far as \<open>shutdown\<close> uses them.
  \<open>io.emit('server.shutdown', ...)\<close> and \<open>io.close()\<close> are plain calls: each returns or
  throws. \<open>io.close()\<close> also returns a promise, which \<open>shutdown\<close> does not await:
  \<open>closeRejects\<close> is the error that promise rejects with, if it does. \<open>quit()\<close> is
  awaited: \<open>quitResult\<close> is the error its promise rejects with, if it does.
\<close>

record SocketIOServer =
  emitThrows :: "js_error option"
  closeThrows :: "js_error option"
  closeRejects :: "js_error option"

record Redis =
  quitResult :: "js_error option"

record OpenClawGateway =
  io :: "SocketIOServer option"
  pubClient :: "Redis option"
  subClient :: "Redis option"
  connectionCount :: nat

text \<open>
  \<open>OpenClawGateway.shutdown\<close> (websocket gateway, lines 811-832 of the file it is stored
  in). The logger of this class is the module's own and is always defined. The statement
  \<open>this.io.close();\<close> has no \<open>await\<close>: only a throw of the call itself ends the method
  there, and the promise the call returns is dropped, so \<open>closeRejects\<close> is not read.
\<close>

definition OpenClawGateway_shutdown :: "OpenClawGateway prog" where
  "OpenClawGateway_shutdown =
     block [(\<lambda>s. case io s of
                    Some srv \<Rightarrow>
                      block [call ''io.emit server.shutdown'' (emitThrows srv),
                             call ''io.close'' (closeThrows srv)] s
                  | None \<Rightarrow> skip s),
            (\<lambda>s. case pubClient s of
                    Some r \<Rightarrow> call ''pubClient.quit'' (quitResult r) s
                  | None \<Rightarrow> skip s),
            (\<lambda>s. case subClient s of
                    Some r \<Rightarrow> call ''subClient.quit'' (quitResult r) s
                  | None \<Rightarrow> skip s),
            effect (Log LogInfo ''WebSocket gateway shut down'')]"

text \<open>
  The shutdown as a list of steps, for comparison with the method: the calls that the
  handles present give rise to, in the order notice, transport, broker, each with the
  error that ends it (for \<open>io.close()\<close> the error it throws); and the run of such a list,
  which stops at the first step that fails.
\<close>

definition shutdownSteps :: "OpenClawGateway \<Rightarrow> (string \<times> js_error option) list" where
  "shutdownSteps s =
     (case io s of
        None \<Rightarrow> []
      | Some srv \<Rightarrow> [(''io.emit server.shutdown'', emitThrows srv),
                     (''io.close'', closeThrows srv)]) @
     (case pubClient s of None \<Rightarrow> [] | Some r \<Rightarrow> [(''pubClient.quit'', quitResult r)]) @
     (case subClient s of None \<Rightarrow> [] | Some r \<Rightarrow> [(''subClient.quit'', quitResult r)])"

fun untilFailure :: "(string \<times> js_error option) list \<Rightarrow> js_error option \<times> effect list" where
  "untilFailure [] = (None, [])"
| "untilFailure ((f, Some e) # rest) = (Some e, [Call f])"
| "untilFailure ((f, None) # rest) =
     (case untilFailure rest of (r, es) \<Rightarrow> (r, Call f # es))"

definition gatewayLive :: OpenClawGateway where
  "gatewayLive =
     \<lparr>io = Some \<lparr>emitThrows = None, closeThrows = None, closeRejects = None\<rparr>,
      pubClient = Some \<lparr>quitResult = None\<rparr>,
      subClient = Some \<lparr>quitResult = None\<rparr>,
      connectionCount = 2\<rparr>"

section \<open>Auth client: the token cache\<close>

text \<open>
  A token is a JavaScript string as the client receives it: the list of its UTF-16 code
  units, which is what \<open>slice\<close> counts. \<open>ascii\<close> is the string of an ASCII text.
\<close>

type_synonym jsstring = "16 word list"

definition ascii :: "string \<Rightarrow> jsstring" where
  "ascii s = map (\<lambda>c. word_of_nat (of_char c)) s"

text \<open>
  The bytes a string is sent to Redis as, its UTF-8 encoding: one to three bytes for a
  code unit, four for a surrogate pair, and the three bytes of U+FFFD for a surrogate that
  is not part of a pair.
\<close>

definition utf8Unit :: "nat \<Rightarrow> bytes" where
  "utf8Unit n =
     (if n < 128 then [word_of_nat n]
      else if n < 2048 then [word_of_nat (192 + n div 64), word_of_nat (128 + n mod 64)]
      else if 55296 \<le> n \<and> n < 57344 then [239, 191, 189]
      else [word_of_nat (224 + n div 4096), word_of_nat (128 + n div 64 mod 64),
            word_of_nat (128 + n mod 64)])"

definition utf8Pair :: "nat \<Rightarrow> nat \<Rightarrow> bytes" where
  "utf8Pair hi lo =
     (let cp = 65536 + (hi - 55296) * 1024 + (lo - 56320) in
      [word_of_nat (240 + cp div 262144), word_of_nat (128 + cp div 4096 mod 64),
       word_of_nat (128 + cp div 64 mod 64), word_of_nat (128 + cp mod 64)])"

fun utf8OfString :: "jsstring \<Rightarrow> bytes" where
  "utf8OfString [] = []"
| "utf8OfString [u] = utf8Unit (unat u)"
| "utf8OfString (u # v # rest) =
     (if 55296 \<le> unat u \<and> unat u < 56320 \<and> 56320 \<le> unat v \<and> unat v < 57344
      then utf8Pair (unat u) (unat v) @ utf8OfString rest
      else utf8Unit (unat u) @ utf8OfString (v # rest))"

record AuthenticatedUser =
  userId :: string
  organizationId :: string
  email :: string
  name :: "string option"
  tier :: string
  permissions :: "string list"
  exp :: int
  iat :: int

text \<open>
  The Redis cache: for each key, as the bytes Redis receives, the cached user and the time,
  in milliseconds, at which the entry expires. The source stores the JSON text of the user
  and parses it back without validation; the model keeps the user that text denotes. A
  command on a Redis that is down rejects.
\<close>

type_synonym cache = "bytes \<rightharpoonup> AuthenticatedUser \<times> int"

record NexusAuthClient =
  redis :: "cache option"
  cacheTTL :: int

text \<open>The user object of a validation response.\<close>

record ResponseUser =
  resp_id :: string
  resp_organization_id :: string
  resp_email :: string
  resp_name :: "string option"
  resp_tier :: "string option"
  resp_permissions :: "string list option"

text \<open>
  The outcome of the POST to \<open>/v1/auth/validate\<close>: an axios error with the status of its
  response, if any, and its message; or the response data \<open>valid\<close>, \<open>user\<close>, \<open>error\<close>.
\<close>

datatype validation_result =
    AxiosError "nat option" string
  | Response bool "ResponseUser option" "string option"

text \<open>
  What the client reaches: \<open>jwt.decode\<close> (the claims \<open>exp\<close> and \<open>iat\<close> of a token that
  decodes to an object, 0 for an absent claim), the auth service, and whether Redis
  answers.
\<close>

record AuthWorld =
  jwtDecode :: "jsstring \<Rightarrow> (int \<times> int) option"
  authService :: "jsstring \<Rightarrow> validation_result"
  redisUp :: bool

text \<open>\<open>token.slice(-16)\<close>: from index \<open>max (length - 16) 0\<close> to the end.\<close>

definition sliceFromEnd :: "nat \<Rightarrow> 'a list \<Rightarrow> 'a list" where
  "sliceFromEnd n s = drop (nat (max (int (length s) - int n) 0)) s"

text \<open>\<open>getCacheKey\<close> (nexus-auth-client.ts, lines 387-390).\<close>

definition getCacheKey :: "jsstring \<Rightarrow> jsstring" where
  "getCacheKey token = (let suffix = sliceFromEnd 16 token in ascii ''auth:token:'' @ suffix)"

text \<open>\<open>redis.get\<close> at time \<open>now\<close>: an entry past its expiry is gone.\<close>

definition redisGet :: "cache \<Rightarrow> int \<Rightarrow> jsstring \<Rightarrow> AuthenticatedUser option" where
  "redisGet c now k =
     (case c (utf8OfString k) of
        None \<Rightarrow> None
      | Some (u, expiresAt) \<Rightarrow> if now < expiresAt then Some u else None)"

text \<open>
  \<open>getCachedToken\<close> (lines 326-355), at \<open>Date.now() = now\<close> milliseconds. The test
  \<open>user.exp < Date.now() / 1000\<close> is taken on integers as \<open>exp * 1000 < now\<close>.
\<close>

definition getCachedToken ::
  "AuthWorld \<Rightarrow> int \<Rightarrow> jsstring \<Rightarrow> NexusAuthClient \<Rightarrow> AuthenticatedUser option \<times> NexusAuthClient" where
  "getCachedToken w now token s =
     (case redis s of
        None \<Rightarrow> (None, s)
      | Some c \<Rightarrow>
          if \<not> redisUp w then (None, s)
          else
            (let cacheKey = getCacheKey token in
             case redisGet c now cacheKey of
               None \<Rightarrow> (None, s)
             | Some user \<Rightarrow>
                 if exp user \<noteq> 0 \<and> exp user * 1000 < now
                 then (None, s\<lparr>redis := Some (c(utf8OfString cacheKey := None))\<rparr>)
                 else (Some user, s)))"

text \<open>
  \<open>cacheToken\<close> (lines 360-381). \<open>Math.floor(Math.min(user.exp - Date.now() / 1000, ttl))\<close>
  is \<open>min ((exp * 1000 - now) div 1000) ttl\<close>; Redis rejects \<open>SETEX\<close> with a time that is
  not positive, and the rejection is caught and logged.
\<close>

definition cacheToken :: "AuthWorld \<Rightarrow> int \<Rightarrow> jsstring \<Rightarrow> AuthenticatedUser \<Rightarrow> NexusAuthClient \<Rightarrow> NexusAuthClient" where
  "cacheToken w now token user s =
     (case redis s of
        None \<Rightarrow> s
      | Some c \<Rightarrow>
          (let cacheKey = getCacheKey token;
               ttl = (if exp user \<noteq> 0 then min ((exp user * 1000 - now) div 1000) (cacheTTL s)
                      else cacheTTL s)
           in if redisUp w \<and> 0 < ttl
              then s\<lparr>redis := Some (c(utf8OfString cacheKey \<mapsto> (user, now + ttl * 1000)))\<rparr>
              else s))"

text \<open>The \<open>catch\<close> of \<open>validateToken\<close> (lines 180-194) on an axios error.\<close>

definition axiosFailure :: "nat option \<Rightarrow> string \<Rightarrow> js_error" where
  "axiosFailure st msg =
     (if st = Some 401 then Error ''Invalid or expired token''
      else if st = Some 403 then Error ''Insufficient permissions''
      else Error (''Auth service error: '' @ msg))"

definition mapTier :: "string option \<Rightarrow> string" where
  "mapTier t =
     (let tierValue = (case t of None \<Rightarrow> ''open_source'' | Some v \<Rightarrow> if v = [] then ''open_source'' else v)
      in if tierValue = ''teams'' \<or> tierValue = ''government'' then tierValue else ''open_source'')"

text \<open>
  \<open>validateToken\<close> (lines 132-195), at \<open>Date.now() = now\<close>. The result is the user or the
  error thrown, the client after the call, and the calls made to the auth service.
\<close>

definition validateToken ::
  "AuthWorld \<Rightarrow> int \<Rightarrow> jsstring \<Rightarrow> NexusAuthClient \<Rightarrow> (js_error + AuthenticatedUser) \<times> NexusAuthClient \<times> effect list" where
  "validateToken w now token s =
     (case getCachedToken w now token s of
        (Some cached, s1) \<Rightarrow> (Inr cached, s1, [])
      | (None, s1) \<Rightarrow>
          (case jwtDecode w token of
             None \<Rightarrow> (Inl (Error ''Failed to decode token''), s1, [])
           | Some (dexp, diat) \<Rightarrow>
               if dexp \<noteq> 0 \<and> dexp * 1000 < now then (Inl (Error ''Token expired''), s1, [])
               else
                 (case authService w token of
                    AxiosError st msg \<Rightarrow> (Inl (axiosFailure st msg), s1, [Call ''POST /v1/auth/validate''])
                  | Response valid None err \<Rightarrow>
                      (Inl (Error (case err of None \<Rightarrow> ''Invalid token''
                                   | Some m \<Rightarrow> if m = [] then ''Invalid token'' else m)),
                       s1, [Call ''POST /v1/auth/validate''])
                  | Response valid (Some ru) err \<Rightarrow>
                      if \<not> valid then
                        (Inl (Error (case err of None \<Rightarrow> ''Invalid token''
                                     | Some m \<Rightarrow> if m = [] then ''Invalid token'' else m)),
                         s1, [Call ''POST /v1/auth/validate''])
                      else
                        (let user = \<lparr>userId = resp_id ru, organizationId = resp_organization_id ru,
                                     email = resp_email ru, name = resp_name ru,
                                     tier = mapTier (resp_tier ru),
                                     permissions = (case resp_permissions ru of None \<Rightarrow> [] | Some ps \<Rightarrow> ps),
                                     exp = dexp, iat = diat\<rparr>
                         in (Inr user, cacheToken w now token user s1,
                             [Call ''POST /v1/auth/validate''])))))"

text \<open>The last \<open>n\<close> characters of a string (all of it when it is shorter).\<close>

definition lastChars :: "nat \<Rightarrow> 'a list \<Rightarrow> 'a list" where
  "lastChars n s = rev (take n (rev s))"

text \<open>
  A world for the evaluation: a service that knows one token, of user \<open>alice\<close>, and two
  distinct tokens with the same last 16 characters.
\<close>

definition tokenAlice :: jsstring where
  "tokenAlice = ascii ''eyJhbGciOiJI.alice-payload.0123456789abcdef''"

definition tokenOther :: jsstring where
  "tokenOther = ascii ''eyJhbGciOiJI.mallory-load.0123456789abcdef''"

definition worldOne :: AuthWorld where
  "worldOne =
     \<lparr>jwtDecode = (\<lambda>t. if t = tokenAlice then Some (2000, 1000) else None),
      authService = (\<lambda>t. if t = tokenAlice
                          then Response True
                                 (Some \<lparr>resp_id = ''u-alice'', resp_organization_id = ''org-1'',
                                        resp_email = ''alice@example.org'', resp_name = None,
                                        resp_tier = Some ''teams'', resp_permissions = None\<rparr>) None
                          else Response False None (Some ''Invalid token'')),
      redisUp = True\<rparr>"

definition alice :: AuthenticatedUser where
  "alice = \<lparr>userId = ''u-alice'', organizationId = ''org-1'', email = ''alice@example.org'',
            name = None, tier = ''teams'', permissions = [], exp = 2000, iat = 1000\<rparr>"

definition clientWithRedis :: NexusAuthClient where
  "clientWithRedis = \<lparr>redis = Some Map.empty, cacheTTL = 300\<rparr>"

text \<open>Two tokens of 16 characters that differ in their first, which is not ASCII.\<close>

definition tokenAccentE :: jsstring where
  "tokenAccentE = 233 # ascii ''123456789abcdef''"

definition tokenCopyright :: jsstring where
  "tokenCopyright = 169 # ascii ''123456789abcdef''"

section \<open>Credential vault: \<open>ChannelEncryption\<close>\<close>

text \<open>
  \<open>buffer.toString('hex')\<close>: two lower-case hexadecimal digits for each byte.
\<close>

definition hexDigit :: "nat \<Rightarrow> char" where
  "hexDigit n = (if n < 10 then char_of (48 + n) else char_of (87 + n))"

fun toHex :: "bytes \<Rightarrow> string" where
  "toHex [] = []"
| "toHex (b # bs) = hexDigit (unat b div 16) # hexDigit (unat b mod 16) # toHex bs"

text \<open>
  The decoder of \<open>Buffer.from(s, 'hex')\<close> works on the UTF-16 code units of the string.
  \<open>codeUnits\<close> gives them for a string of the model, that is, from its UTF-8 text: one
  unit for a character of one, two or three bytes, the two surrogates for a character of
  four bytes. (A surrogate outside a pair is the three bytes of its number here. Text that
  ends inside a character is the text of no string.)
\<close>

definition continuation :: "char \<Rightarrow> nat" where
  "continuation c = of_char c mod 64"

fun codeUnits :: "string \<Rightarrow> nat list" where
  "codeUnits [] = []"
| "codeUnits (c # cs) =
     (let n = (of_char c :: nat) in
      if n < 128 then n # codeUnits cs
      else if n < 224 then
        (case cs of
           d # ds \<Rightarrow> (n mod 32 * 64 + continuation d) # codeUnits ds
         | [] \<Rightarrow> [])
      else if n < 240 then
        (case cs of
           d # e # es \<Rightarrow> (n mod 16 * 4096 + continuation d * 64 + continuation e) # codeUnits es
         | _ \<Rightarrow> [])
      else
        (case cs of
           d # e # f # fs \<Rightarrow>
             (let cp = n mod 8 * 262144 + continuation d * 4096 + continuation e * 64 +
                       continuation f - 65536
              in (55296 + cp div 1024) # (56320 + cp mod 1024) # codeUnits fs)
         | _ \<Rightarrow> []))"

text \<open>
  \<open>Buffer.from(s, 'hex')\<close> on a string: the decoder takes the code units two by two, reads
  of each its low byte, and stops, without an error, at the first pair that is not two
  hexadecimal digits (of either case); a last single unit is dropped.
\<close>

definition unhex :: "nat \<Rightarrow> nat option" where
  "unhex n =
     (if 48 \<le> n \<and> n \<le> 57 then Some (n - 48)
      else if 97 \<le> n \<and> n \<le> 102 then Some (n - 87)
      else if 65 \<le> n \<and> n \<le> 70 then Some (n - 55)
      else None)"

fun hexPairs :: "nat list \<Rightarrow> bytes" where
  "hexPairs (a # b # rest) =
     (case (unhex (a mod 256), unhex (b mod 256)) of
        (Some x, Some y) \<Rightarrow> word_of_nat (16 * x + y) # hexPairs rest
      | _ \<Rightarrow> [])"
| "hexPairs us = []"

definition fromHex :: "string \<Rightarrow> bytes" where
  "fromHex s = hexPairs (codeUnits s)"

text \<open>
  \<open>cipher.update(text, 'utf8')\<close> and \<open>buffer.toString('utf8')\<close>. A string is modelled by
  its UTF-8 bytes, so both keep the bytes. (On bytes that are not well-formed UTF-8 the
  platform decodes with replacement characters; the output of \<open>JSON.stringify\<close> is
  well-formed.)
\<close>

definition utf8Encode :: "string \<Rightarrow> bytes" where
  "utf8Encode s = map (\<lambda>c. word_of_nat (of_char c)) s"

definition utf8Decode :: "bytes \<Rightarrow> string" where
  "utf8Decode bs = map (\<lambda>b. char_of (unat b)) bs"

text \<open>
  A JSON value. The type \<open>'n\<close> of its numbers is left open: the vault computes with none.
\<close>

datatype 'n json =
    JNull
  | JBool bool
  | JNumber 'n
  | JString string
  | JArray "'n json list"
  | JObject "(string \<times> 'n json) list"

text \<open>
  The platform functions the vault calls. \<open>JSON_parse\<close> is \<open>None\<close> where \<open>JSON.parse\<close>
  throws a SyntaxError; the objects it returns have distinct keys. \<open>cipherGCM key iv text\<close>
  is the ciphertext and the authentication tag that \<open>createCipheriv('aes-256-gcm', key, iv)\<close>,
  \<open>update\<close>, \<open>final\<close> and \<open>getAuthTag\<close> produce. For decryption, \<open>createDecipheriv key iv\<close>
  and \<open>setAuthTag tag\<close> say whether the call of that name accepts its arguments, and
  \<open>decipherGCM key iv tag ciphertext\<close> is the plaintext of \<open>update\<close> and \<open>final\<close>, \<open>None\<close>
  when \<open>final\<close> throws because the tag does not authenticate the data.
  \<open>bufferFromValue\<close> is \<open>Buffer.from(v, 'hex')\<close> for a value \<open>v\<close> that is not a string
  (the bytes of an array or array-like object, \<open>None\<close> for a TypeError).
\<close>

record 'n NodeLibrary =
  JSON_stringify :: "'n json \<Rightarrow> string"
  JSON_parse :: "string \<Rightarrow> 'n json option"
  cipherGCM :: "bytes \<Rightarrow> bytes \<Rightarrow> bytes \<Rightarrow> bytes \<times> bytes"
  createDecipheriv :: "bytes \<Rightarrow> bytes \<Rightarrow> bool"
  setAuthTag :: "bytes \<Rightarrow> bool"
  decipherGCM :: "bytes \<Rightarrow> bytes \<Rightarrow> bytes \<Rightarrow> bytes \<Rightarrow> bytes option"
  bufferFromValue :: "'n json \<Rightarrow> bytes option"

text \<open>
  \<open>ChannelEncryption.encrypt\<close> (channel-repository.ts, lines 32-49). \<open>key\<close> is the key the
  constructor derives, \<open>iv\<close> the 16 bytes \<open>crypto.randomBytes\<close> returns in this call.
  \<open>encryptedRecord\<close> is the object that the last statement serialises.
\<close>

definition encryptedRecord :: "'n NodeLibrary \<Rightarrow> bytes \<Rightarrow> bytes \<Rightarrow> 'n json \<Rightarrow> 'n json" where
  "encryptedRecord lib key iv data =
     (case cipherGCM lib key iv (utf8Encode (JSON_stringify lib data)) of
        (encrypted, authTag) \<Rightarrow>
          JObject [(''iv'', JString (toHex iv)),
                   (''data'', JString (toHex encrypted)),
                   (''authTag'', JString (toHex authTag))])"

definition encrypt :: "'n NodeLibrary \<Rightarrow> bytes \<Rightarrow> bytes \<Rightarrow> 'n json \<Rightarrow> string" where
  "encrypt lib key iv data = JSON_stringify lib (encryptedRecord lib key iv data)"

text \<open>
  A property of a parsed value: \<open>None\<close> is \<open>undefined\<close>. Only an object has the properties
  \<open>iv\<close>, \<open>data\<close> and \<open>authTag\<close>.
\<close>

fun property :: "string \<Rightarrow> 'n json \<Rightarrow> 'n json option" where
  "property k (JObject kvs) = map_of kvs k"
| "property k v = None"

text \<open>\<open>Buffer.from(v, 'hex')\<close> for a property \<open>v\<close> of the parsed record.\<close>

fun bufferFromHex :: "'n NodeLibrary \<Rightarrow> 'n json option \<Rightarrow> js_error + bytes" where
  "bufferFromHex lib None = Inl (TypeError ''The first argument must be of type string'')"
| "bufferFromHex lib (Some (JString s)) = Inr (fromHex s)"
| "bufferFromHex lib (Some v) =
     (case bufferFromValue lib v of
        None \<Rightarrow> Inl (TypeError ''The first argument must be of type string'')
      | Some bs \<Rightarrow> Inr bs)"

text \<open>
  \<open>ChannelEncryption.decrypt\<close> (lines 54-72). Destructuring \<open>null\<close> throws; the method
  catches nothing, so every error of a call ends it.
\<close>

definition decrypt :: "'n NodeLibrary \<Rightarrow> bytes \<Rightarrow> string \<Rightarrow> js_error + 'n json" where
  "decrypt lib key encrypted =
     (case JSON_parse lib encrypted of
        None \<Rightarrow> Inl (SyntaxError ''Unexpected token'')
      | Some parsed \<Rightarrow>
          if parsed = JNull then Inl (TypeError ''Cannot destructure'')
          else
            (case bufferFromHex lib (property ''iv'' parsed) of
               Inl e \<Rightarrow> Inl e
             | Inr iv \<Rightarrow>
                 if \<not> createDecipheriv lib key iv then Inl (Error ''Invalid initialization vector'')
                 else
                   (case bufferFromHex lib (property ''authTag'' parsed) of
                      Inl e \<Rightarrow> Inl e
                    | Inr authTag \<Rightarrow>
                        if \<not> setAuthTag lib authTag
                        then Inl (Error ''Invalid authentication tag length'')
                        else
                          (case bufferFromHex lib (property ''data'' parsed) of
                             Inl e \<Rightarrow> Inl e
                           | Inr data \<Rightarrow>
                               (case decipherGCM lib key iv authTag data of
                                  None \<Rightarrow>
                                    Inl (Error ''Unsupported state or unable to authenticate data'')
                                | Some decrypted \<Rightarrow>
                                    (case JSON_parse lib (utf8Decode decrypted) of
                                       None \<Rightarrow> Inl (SyntaxError ''Unexpected token'')
                                     | Some v \<Rightarrow> Inr v))))))"

text \<open>
  What the platform guarantees of its functions, as far as the vault relies on it:
  \<open>JSON.parse\<close> gives back a value that \<open>JSON.stringify\<close> has serialised (this is what
  makes a configuration object a valid one), and decryption under the key, nonce and tag
  of an encryption gives back its plaintext.
\<close>

definition jsonRoundTrip :: "'n NodeLibrary \<Rightarrow> 'n json \<Rightarrow> bool" where
  "jsonRoundTrip lib v = (JSON_parse lib (JSON_stringify lib v) = Some v)"

definition gcmRoundTrip :: "'n NodeLibrary \<Rightarrow> bytes \<Rightarrow> bytes \<Rightarrow> bytes \<Rightarrow> bool" where
  "gcmRoundTrip lib key iv text =
     (case cipherGCM lib key iv text of
        (encrypted, authTag) \<Rightarrow>
          createDecipheriv lib key iv \<and> setAuthTag lib authTag \<and>
          decipherGCM lib key iv authTag encrypted = Some text)"

section \<open>Channel repository\<close>






















section \<open>A small platform for evaluation\<close>

text \<open>
  An instance of the platform functions on which the vault can be run: a serialiser and a
  parser for the JSON objects whose values are strings without escapes, and an
  authenticated cipher that shifts each byte by one and tags the ciphertext with the sum of
  key, nonce and ciphertext. It only serves to evaluate the vault on concrete records.
\<close>

definition dq :: char where
  "dq = CHR 0x22"

fun miniValue :: "int json \<Rightarrow> string" where
  "miniValue (JString s) = dq # s @ [dq]"
| "miniValue v = ''null''"

fun miniMembers :: "(string \<times> int json) list \<Rightarrow> string" where
  "miniMembers [] = []"
| "miniMembers [(k, v)] = dq # k @ [dq] @ '':'' @ miniValue v"
| "miniMembers ((k, v) # kvs) = dq # k @ [dq] @ '':'' @ miniValue v @ '','' @ miniMembers kvs"

fun miniStringify :: "int json \<Rightarrow> string" where
  "miniStringify (JObject kvs) = ''{'' @ miniMembers kvs @ ''}''"
| "miniStringify v = miniValue v"

fun takeString :: "string \<Rightarrow> (string \<times> string) option" where
  "takeString [] = None"
| "takeString (c # cs) =
     (if c = dq then Some ([], cs)
      else (case takeString cs of None \<Rightarrow> None | Some (s, r) \<Rightarrow> Some (c # s, r)))"

fun parseMembers :: "nat \<Rightarrow> string \<Rightarrow> (string \<times> int json) list option" where
  "parseMembers 0 s = None"
| "parseMembers (Suc n) s =
     (case s of
        [] \<Rightarrow> None
      | q # r1 \<Rightarrow>
          if q \<noteq> dq then None
          else
            (case takeString r1 of
               Some (k, c1 # c2 # r2) \<Rightarrow>
                 if c1 = CHR '':'' \<and> c2 = dq then
                   (case takeString r2 of
                      Some (v, c3 # r3) \<Rightarrow>
                        if c3 = CHR ''}'' \<and> r3 = [] then Some [(k, JString v)]
                        else if c3 = CHR '','' then
                          (case parseMembers n r3 of
                             None \<Rightarrow> None
                           | Some kvs \<Rightarrow> Some ((k, JString v) # kvs))
                        else None
                    | _ \<Rightarrow> None)
                 else None
             | _ \<Rightarrow> None))"

definition miniParse :: "string \<Rightarrow> int json option" where
  "miniParse s =
     (case s of
        c # rest \<Rightarrow>
          if c = CHR ''{'' then
            (if rest = ''}'' then Some (JObject [])
             else map_option JObject (parseMembers (length rest) rest))
          else None
      | [] \<Rightarrow> None)"

definition miniTag :: "bytes \<Rightarrow> bytes \<Rightarrow> bytes \<Rightarrow> bytes" where
  "miniTag key iv ciphertext = [sum_list (key @ iv @ ciphertext)]"

definition miniLibrary :: "int NodeLibrary" where
  "miniLibrary =
     \<lparr>JSON_stringify = miniStringify,
      JSON_parse = miniParse,
      cipherGCM = (\<lambda>key iv text. (map (\<lambda>b. b + 1) text, miniTag key iv (map (\<lambda>b. b + 1) text))),
      createDecipheriv = (\<lambda>key iv. iv \<noteq> []),
      setAuthTag = (\<lambda>tag. tag \<noteq> []),
      decipherGCM = (\<lambda>key iv tag ciphertext.
         if tag = miniTag key iv ciphertext then Some (map (\<lambda>b. b - 1) ciphertext) else None),
      bufferFromValue = (\<lambda>v. None)\<rparr>"

definition key0 :: bytes where
  "key0 = [7, 7, 7, 7]"

definition iv0 :: bytes where
  "iv0 = [0, 1, 2, 3, 4, 5, 6, 7, 8, 9, 10, 11, 12, 13, 14, 255]"

definition config0 :: "int json" where
  "config0 = JObject [(''botToken'', JString ''42:xy'')]"

text \<open>The record \<open>encrypt\<close> produces for \<open>config0\<close>.\<close>

definition record0 :: "int json" where
  "record0 = JObject [(''iv'', JString ''000102030405060708090a0b0c0d0eff''),
                      (''data'', JString ''7c2363707555706c666f233b2335333b797a237e''),
                      (''authTag'', JString ''29'')]"

text \<open>
  The same platform with the tag handling that \<open>createDecipheriv\<close> has when it is given
  no \<open>authTagLength\<close>, which is how the vault calls it: the cipher writes a tag of 16
  bytes, \<open>setAuthTag\<close> accepts a tag of 4, 8 or 12 to 16 bytes, and \<open>final\<close> compares the
  tag it was given with as many bytes of the tag it computes.
\<close>

definition wideTag :: "bytes \<Rightarrow> bytes \<Rightarrow> bytes \<Rightarrow> bytes" where
  "wideTag key iv ciphertext =
     map (\<lambda>i. sum_list (key @ iv @ ciphertext) + i)
       [1, 2, 3, 4, 5, 6, 7, 8, 9, 10, 11, 12, 13, 14, 15, 16]"

definition defaultTagLibrary :: "int NodeLibrary" where
  "defaultTagLibrary =
     miniLibrary
       \<lparr>cipherGCM := (\<lambda>key iv text.
          (map (\<lambda>b. b + 1) text, wideTag key iv (map (\<lambda>b. b + 1) text))),
        setAuthTag := (\<lambda>tag. length tag \<in> {4, 8, 12, 13, 14, 15, 16}),
        decipherGCM := (\<lambda>key iv tag ciphertext.
          if tag = take (length tag) (wideTag key iv ciphertext)
          then Some (map (\<lambda>b. b - 1) ciphertext) else None)\<rparr>"

text \<open>
  The record \<open>encrypt\<close> produces for \<open>config0\<close> on that platform; the same record with
  its tag cut to the first four bytes; and with a tag of full length whose first byte is
  changed.
\<close>

definition recordWide :: "int json" where
  "recordWide = JObject [(''iv'', JString ''000102030405060708090a0b0c0d0eff''),
                         (''data'', JString ''7c2363707555706c666f233b2335333b797a237e''),
                         (''authTag'', JString ''2a2b2c2d2e2f30313233343536373839'')]"

definition recordShortTag :: "int json" where
  "recordShortTag = JObject [(''iv'', JString ''000102030405060708090a0b0c0d0eff''),
                             (''data'', JString ''7c2363707555706c666f233b2335333b797a237e''),
                             (''authTag'', JString ''2a2b2c2d'')]"

definition recordWrongTag :: "int json" where
  "recordWrongTag = JObject [(''iv'', JString ''000102030405060708090a0b0c0d0eff''),
                             (''data'', JString ''7c2363707555706c666f233b2335333b797a237e''),
                             (''authTag'', JString ''2b2b2c2d2e2f30313233343536373839'')]"




section \<open>Concrete adapters and libraries\<close>

text \<open>
  Adapters in the state a successful \<open>initialize\<close> and \<open>connect\<close> leave them in, with
  callbacks and platform calls that succeed; the theorems below are evaluated on them.
\<close>

definition whatsappLive :: WhatsAppAdapter where
  "whatsappLive =
     \<lparr>options = Some \<lparr>config = \<lparr>sessionId = ''s1'', phoneNumber = None\<rparr>,
                       onStatusChange = (\<lambda>st detail. None)\<rparr>,
      status = CONNECTED, stats = stats0, isShuttingDown = False,
      socket = Some \<lparr>logout = None\<rparr>, qrCode = None,
      reconnectAttempts = 0, maxReconnectAttempts = 10\<rparr>"

definition baileysOk :: BaileysLibrary where
  "baileysOk = \<lparr>fetchLatestBaileysVersion = None, useMultiFileAuthState = None,
                makeWASocket = Inr \<lparr>logout = None\<rparr>\<rparr>"

definition telegramLive :: TelegramAdapter where
  "telegramLive =
     \<lparr>options = Some \<lparr>config = \<lparr>botToken = ''123:abc'', botUsername = None,
                                 webhookUrl = Some ''https://example.org/hook'', webhookSecret = None\<rparr>,
                       onStatusChange = (\<lambda>st detail. None)\<rparr>,
      status = CONNECTED, stats = stats0, isShuttingDown = False,
      bot = Some \<lparr>deleteWebhook = None, setWebhook = None\<rparr>, runner = None\<rparr>"

definition grammyOk :: GrammyLibrary where
  "grammyOk = \<lparr>newBot = Inr \<lparr>deleteWebhook = None, setWebhook = None\<rparr>, run = \<lparr>stop = None\<rparr>\<rparr>"

definition discordLive :: DiscordAdapter where
  "discordLive =
     \<lparr>options = Some \<lparr>config = \<lparr>discordBotToken = ''tok'', applicationId = ''app'',
                                 guildId = None, intents = [''Guilds'']\<rparr>,
                       onStatusChange = (\<lambda>st detail. None)\<rparr>,
      status = CONNECTED, stats = stats0, isShuttingDown = False,
      client = Some \<lparr>login = None, destroy = None\<rparr>\<rparr>"

definition discordOk :: DiscordLibrary where
  "discordOk = \<lparr>newClient = Inr \<lparr>login = None, destroy = None\<rparr>, restPut = None\<rparr>"

section \<open>Proofs\<close>

lemma replaceNonDigits_filter: "replaceNonDigits s = filter isDigit s"
  by (induction s) simp_all

lemma includes_single: "includes_str s [c] = (c \<in> set s)"
  by (induction s) auto

text \<open>
  Claim C10. For an identifier without the character \<open>@\<close>, \<open>normalizeJid\<close> returns its
  digits, in order, followed by \<open>@s.whatsapp.net\<close>; an identifier that contains \<open>@\<close> is
  returned unchanged.
\<close>

theorem normalizeJid_spec:
  "(CHR ''@'' \<notin> set s \<longrightarrow> normalizeJid s = filter isDigit s @ ''@s.whatsapp.net'') \<and>
   (CHR ''@'' \<in> set s \<longrightarrow> normalizeJid s = s)"
  by (simp add: normalizeJid_def replaceNonDigits_filter includes_single)

theorem normalizeJid_spec_witness:
  "CHR ''@'' \<notin> set ''+1 (555) 010-99'' \<and> normalizeJid ''+1 (555) 010-99'' = ''155501099@s.whatsapp.net'' \<and>
   CHR ''@'' \<in> set ''12345-678@g.us'' \<and> normalizeJid ''12345-678@g.us'' = ''12345-678@g.us''"
  using normalizeJid_spec [of "''+1 (555) 010-99''"] normalizeJid_spec [of "''12345-678@g.us''"]
  by (simp add: isDigit_def)

subsection \<open>Adapters\<close>

lemmas prog_defs = skip_def throw_def effect_def modify_def call_def seq_def tryCatch_def
  logger_def notifyStatus_def setStatus_def

lemma close_max_unchanged:
  "WhatsAppAdapter_handleConnectionClose c s = (r, s', es) \<Longrightarrow>
   maxReconnectAttempts s' = maxReconnectAttempts s"
  by (auto simp: WhatsAppAdapter_handleConnectionClose_def prog_defs Let_def
      split: option.splits if_splits)

lemma close_timers:
  "WhatsAppAdapter_handleConnectionClose c s = (r, s', es) \<Longrightarrow>
   length (filter isTimer es) + reconnectAttempts s \<le> reconnectAttempts s' \<and>
   (reconnectAttempts s \<le> maxReconnectAttempts s \<longrightarrow> reconnectAttempts s' \<le> maxReconnectAttempts s)"
  by (auto simp: WhatsAppAdapter_handleConnectionClose_def prog_defs Let_def
      split: option.splits if_splits)

lemma run_close_timers:
  "\<forall>u \<in> set us. u \<noteq> Open \<Longrightarrow> reconnectAttempts s \<le> maxReconnectAttempts s \<Longrightarrow>
   length (filter isTimer (snd (WhatsAppAdapter_run us s))) + reconnectAttempts s
     \<le> maxReconnectAttempts s"
proof (induction us arbitrary: s)
  case Nil
  then show ?case by simp
next
  case (Cons u us)
  from Cons.prems obtain c where u: "u = Close c" by (cases u) auto
  obtain r s' es where h: "WhatsAppAdapter_handleConnectionClose c s = (r, s', es)"
    by (cases "WhatsAppAdapter_handleConnectionClose c s") auto
  obtain s'' es' where run: "WhatsAppAdapter_run us s' = (s'', es')"
    by (cases "WhatsAppAdapter_run us s'") auto
  have m: "maxReconnectAttempts s' = maxReconnectAttempts s"
    using h by (rule close_max_unchanged)
  have t: "length (filter isTimer es) + reconnectAttempts s \<le> reconnectAttempts s'"
    and b: "reconnectAttempts s' \<le> maxReconnectAttempts s"
    using close_timers [OF h] Cons.prems(2) by auto
  have "length (filter isTimer es') + reconnectAttempts s' \<le> maxReconnectAttempts s'"
    using Cons.IH [of s'] Cons.prems(1) b m run by simp
  then show ?case using u h run t m by simp
qed

lemma close_step:
  assumes "options s = Some opts" "\<not> isShuttingDown s" "c \<noteq> Some DisconnectReason_loggedOut"
    "reconnectAttempts s < maxReconnectAttempts s"
  shows "WhatsAppAdapter_handleConnectionClose c s =
     (None, s\<lparr>reconnectAttempts := reconnectAttempts s + 1\<rparr>,
      [Log LogInfo ''WhatsApp connection closed'', Log LogInfo ''Reconnecting to WhatsApp...'',
       SetTimeout (min (1000 * 2 ^ reconnectAttempts s) 30000)])"
  using assms by (simp add: WhatsAppAdapter_handleConnectionClose_def prog_defs Let_def)

lemma open_resets:
  "reconnectAttempts (fst (snd (WhatsAppAdapter_handleConnectionOpen s))) = 0 \<and>
   status (fst (snd (WhatsAppAdapter_handleConnectionOpen s))) = CONNECTED \<and>
   maxReconnectAttempts (fst (snd (WhatsAppAdapter_handleConnectionOpen s))) = maxReconnectAttempts s"
  by (simp add: WhatsAppAdapter_handleConnectionOpen_def prog_defs split: option.splits)

lemma event_max_unchanged:
  "maxReconnectAttempts (fst (snd (WhatsAppAdapter_handleEvent u s))) = maxReconnectAttempts s"
proof (cases u)
  case (Close c)
  obtain r s' es where h: "WhatsAppAdapter_handleConnectionClose c s = (r, s', es)"
    by (cases "WhatsAppAdapter_handleConnectionClose c s") auto
  show ?thesis using Close h close_max_unchanged [OF h] by simp
next
  case Open
  then show ?thesis using open_resets [of s] by simp
qed

lemma run_max_unchanged:
  "maxReconnectAttempts (fst (WhatsAppAdapter_run us s)) = maxReconnectAttempts s"
proof (induction us arbitrary: s)
  case Nil
  then show ?case by simp
next
  case (Cons u us)
  show ?case
    using Cons.IH [of "fst (snd (WhatsAppAdapter_handleEvent u s))"] event_max_unchanged [of u s]
    by (simp add: split_beta)
qed

lemma run_append:
  "WhatsAppAdapter_run (us @ vs) s =
     (fst (WhatsAppAdapter_run vs (fst (WhatsAppAdapter_run us s))),
      snd (WhatsAppAdapter_run us s) @ snd (WhatsAppAdapter_run vs (fst (WhatsAppAdapter_run us s))))"
  by (induction us arbitrary: s) (simp_all add: split_beta)

lemma run_then_open:
  "reconnectAttempts (fst (WhatsAppAdapter_run (vs @ [Open]) s)) = 0 \<and>
   status (fst (WhatsAppAdapter_run (vs @ [Open]) s)) = CONNECTED \<and>
   maxReconnectAttempts (fst (WhatsAppAdapter_run (vs @ [Open]) s)) = maxReconnectAttempts s"
  using open_resets [of "fst (WhatsAppAdapter_run vs s)"] run_max_unchanged [of vs s]
  by (simp add: run_append split_beta)

lemma timers_after_open:
  assumes "\<forall>u \<in> set ws. u \<noteq> Open"
  shows "length (filter isTimer
           (snd (WhatsAppAdapter_run ws (fst (WhatsAppAdapter_run (vs @ [Open]) s)))))
         \<le> maxReconnectAttempts s"
  using run_close_timers [OF assms, of "fst (WhatsAppAdapter_run (vs @ [Open]) s)"]
    run_then_open [of vs s]
  by simp

text \<open>
  Claim C5. While the WhatsApp adapter may still reconnect, a transient \<open>close\<close> update
  with the attempt counter at \<open>n\<close> schedules one timer of \<open>min (1000 * 2 ^ n) 30000\<close>
  milliseconds and moves the counter to \<open>n + 1\<close>; a run of closes with no open in between
  schedules at most \<open>maxReconnectAttempts - reconnectAttempts\<close> timers; the maximum is 10
  and the counter 0 in a new adapter, and no update changes the maximum. An \<open>open\<close> update,
  alone or at the end of any run of updates, leaves the counter at zero and the status
  connected, so that the closes that follow it, up to the next open, schedule at most
  \<open>maxReconnectAttempts\<close> timers.
\<close>

theorem reconnect_backoff_policy:
  "(options s = Some opts \<and> \<not> isShuttingDown s \<and> c \<noteq> Some DisconnectReason_loggedOut \<and>
    reconnectAttempts s < maxReconnectAttempts s \<longrightarrow>
      WhatsAppAdapter_handleConnectionClose c s =
        (None, s\<lparr>reconnectAttempts := reconnectAttempts s + 1\<rparr>,
         [Log LogInfo ''WhatsApp connection closed'', Log LogInfo ''Reconnecting to WhatsApp...'',
          SetTimeout (min (1000 * 2 ^ reconnectAttempts s) 30000)]) \<and>
      WhatsAppAdapter_handleEvent (Close c) s =
        (None, s\<lparr>reconnectAttempts := reconnectAttempts s + 1\<rparr>,
         [Log LogInfo ''WhatsApp connection closed'', Log LogInfo ''Reconnecting to WhatsApp...'',
          SetTimeout (min (1000 * 2 ^ reconnectAttempts s) 30000)])) \<and>
   ((\<forall>u \<in> set us. u \<noteq> Open) \<and> reconnectAttempts s1 \<le> maxReconnectAttempts s1 \<longrightarrow>
      length (filter isTimer (snd (WhatsAppAdapter_run us s1))) + reconnectAttempts s1
        \<le> maxReconnectAttempts s1) \<and>
   maxReconnectAttempts WhatsAppAdapter_new = 10 \<and>
   reconnectAttempts WhatsAppAdapter_new = 0 \<and>
   maxReconnectAttempts (fst (WhatsAppAdapter_run vs s2)) = maxReconnectAttempts s2 \<and>
   reconnectAttempts (fst (snd (WhatsAppAdapter_handleConnectionOpen s2))) = 0 \<and>
   status (fst (snd (WhatsAppAdapter_handleConnectionOpen s2))) = CONNECTED \<and>
   reconnectAttempts (fst (snd (WhatsAppAdapter_handleEvent Open s2))) = 0 \<and>
   status (fst (snd (WhatsAppAdapter_handleEvent Open s2))) = CONNECTED \<and>
   reconnectAttempts (fst (WhatsAppAdapter_run (vs @ [Open]) s2)) = 0 \<and>
   status (fst (WhatsAppAdapter_run (vs @ [Open]) s2)) = CONNECTED \<and>
   ((\<forall>u \<in> set ws. u \<noteq> Open) \<longrightarrow>
      length (filter isTimer
        (snd (WhatsAppAdapter_run ws (fst (WhatsAppAdapter_run (vs @ [Open]) s2)))))
        \<le> maxReconnectAttempts s2)"
  using close_step [of s opts c] run_close_timers [of us s1] open_resets [of s2]
    run_max_unchanged [of vs s2] run_then_open [of vs s2] timers_after_open [of ws vs s2]
  by (simp add: WhatsAppAdapter_new_def)

lemma whatsappLive_three_closes:
  "WhatsAppAdapter_run [Close None, Close (Some 428), Close None] whatsappLive =
     (whatsappLive\<lparr>reconnectAttempts := 3\<rparr>,
      [Log LogInfo ''WhatsApp connection closed'', Log LogInfo ''Reconnecting to WhatsApp...'',
       SetTimeout 1000,
       Log LogInfo ''WhatsApp connection closed'', Log LogInfo ''Reconnecting to WhatsApp...'',
       SetTimeout 2000,
       Log LogInfo ''WhatsApp connection closed'', Log LogInfo ''Reconnecting to WhatsApp...'',
       SetTimeout 4000])"
  by (simp add: WhatsAppAdapter_handleConnectionClose_def prog_defs Let_def whatsappLive_def
      DisconnectReason_loggedOut_def)

theorem reconnect_backoff_policy_witness:
  "(options whatsappLive = Some \<lparr>config = \<lparr>sessionId = ''s1'', phoneNumber = None\<rparr>,
                                  onStatusChange = (\<lambda>st detail. None)\<rparr> \<and>
    \<not> isShuttingDown whatsappLive \<and> None \<noteq> Some DisconnectReason_loggedOut \<and>
    reconnectAttempts whatsappLive < maxReconnectAttempts whatsappLive) \<and>
   WhatsAppAdapter_handleEvent (Close None) whatsappLive =
     (None, whatsappLive\<lparr>reconnectAttempts := 1\<rparr>,
      [Log LogInfo ''WhatsApp connection closed'', Log LogInfo ''Reconnecting to WhatsApp...'',
       SetTimeout 1000]) \<and>
   (Open \<notin> set (replicate 12 (Close None)) \<and>
    reconnectAttempts whatsappLive \<le> maxReconnectAttempts whatsappLive) \<and>
   length (filter isTimer (snd (WhatsAppAdapter_run (replicate 12 (Close None)) whatsappLive)))
     \<le> 10 \<and>
   reconnectAttempts (fst (WhatsAppAdapter_run [Close None, Close (Some 428), Close None]
     whatsappLive)) = 3 \<and>
   reconnectAttempts (fst (WhatsAppAdapter_run ([Close None, Close (Some 428), Close None] @ [Open])
     whatsappLive)) = 0 \<and>
   length (filter isTimer (snd (WhatsAppAdapter_run (replicate 12 (Close None))
     (fst (WhatsAppAdapter_run ([Close None, Close (Some 428), Close None] @ [Open])
        whatsappLive))))) \<le> 10"
proof -
  let ?opts = "\<lparr>config = \<lparr>sessionId = ''s1'', phoneNumber = None\<rparr>,
                onStatusChange = (\<lambda>st detail. None)\<rparr>"
  let ?vs = "[Close None, Close (Some 428), Close None]"
  note T = reconnect_backoff_policy [of whatsappLive ?opts None "replicate 12 (Close None)"
      whatsappLive ?vs whatsappLive "replicate 12 (Close None)"]
  have H1: "options whatsappLive = Some ?opts \<and> \<not> isShuttingDown whatsappLive \<and>
      None \<noteq> Some DisconnectReason_loggedOut \<and>
      reconnectAttempts whatsappLive < maxReconnectAttempts whatsappLive"
    by (simp add: whatsappLive_def)
  have H2: "(\<forall>u \<in> set (replicate 12 (Close None)). u \<noteq> Open) \<and>
      reconnectAttempts whatsappLive \<le> maxReconnectAttempts whatsappLive"
    by (simp add: whatsappLive_def)
  have H3: "\<forall>u \<in> set (replicate 12 (Close None)). u \<noteq> Open"
    by simp
  have E: "reconnectAttempts whatsappLive = 0" "maxReconnectAttempts whatsappLive = 10"
    by (simp_all add: whatsappLive_def)
  have C1: "WhatsAppAdapter_handleEvent (Close None) whatsappLive =
     (None, whatsappLive\<lparr>reconnectAttempts := reconnectAttempts whatsappLive + 1\<rparr>,
      [Log LogInfo ''WhatsApp connection closed'', Log LogInfo ''Reconnecting to WhatsApp...'',
       SetTimeout (min (1000 * 2 ^ reconnectAttempts whatsappLive) 30000)])"
    using T H1 by blast
  have C2: "length (filter isTimer (snd (WhatsAppAdapter_run (replicate 12 (Close None)) whatsappLive)))
      + reconnectAttempts whatsappLive \<le> maxReconnectAttempts whatsappLive"
    using T H2 by blast
  have C3: "reconnectAttempts (fst (WhatsAppAdapter_run (?vs @ [Open]) whatsappLive)) = 0"
    using T by blast
  have C4: "length (filter isTimer (snd (WhatsAppAdapter_run (replicate 12 (Close None))
       (fst (WhatsAppAdapter_run (?vs @ [Open]) whatsappLive))))) \<le> maxReconnectAttempts whatsappLive"
    using T H3 by blast
  have C1': "WhatsAppAdapter_handleEvent (Close None) whatsappLive =
     (None, whatsappLive\<lparr>reconnectAttempts := 1\<rparr>,
      [Log LogInfo ''WhatsApp connection closed'', Log LogInfo ''Reconnecting to WhatsApp...'',
       SetTimeout 1000])"
    using C1 by (simp only: E) simp
  have C2': "length (filter isTimer (snd (WhatsAppAdapter_run (replicate 12 (Close None)) whatsappLive)))
      \<le> 10"
    using C2 by (simp only: E add_0_right)
  have C4': "length (filter isTimer (snd (WhatsAppAdapter_run (replicate 12 (Close None))
       (fst (WhatsAppAdapter_run (?vs @ [Open]) whatsappLive))))) \<le> 10"
    using C4 by (simp only: E)
  have H2': "Open \<notin> set (replicate 12 (Close None))"
    by simp
  have R: "reconnectAttempts (fst (WhatsAppAdapter_run ?vs whatsappLive)) = 3"
    by (simp only: whatsappLive_three_closes) simp
  show ?thesis using H1 H2 H2' C1' C2' C3 C4' R by blast
qed

lemma WhatsAppAdapter_disconnect_ok:
  assumes "options s = Some opts" "onStatusChange opts DISCONNECTED None = None"
    "\<forall>sock. socket s = Some sock \<longrightarrow> logout sock = None"
  shows "fst (WhatsAppAdapter_disconnect s) = None \<and>
     fst (snd (WhatsAppAdapter_disconnect s)) =
       s\<lparr>isShuttingDown := True, socket := None, status := DISCONNECTED\<rparr> \<and>
     WhatsAppAdapter_disconnect (fst (snd (WhatsAppAdapter_disconnect s))) =
       (None, fst (snd (WhatsAppAdapter_disconnect s)),
        [Log LogInfo ''Disconnecting from WhatsApp...'', StatusChange DISCONNECTED None,
         Log LogInfo ''WhatsApp disconnected''])"
  using assms by (cases "socket s") (simp_all add: WhatsAppAdapter_disconnect_def prog_defs)

lemma TelegramAdapter_disconnect_ok:
  assumes "options s = Some opts" "onStatusChange opts DISCONNECTED None = None"
    "\<forall>r. runner s = Some r \<longrightarrow> stop r = None"
    "\<forall>b. bot s = Some b \<longrightarrow> deleteWebhook b = None"
  shows "fst (TelegramAdapter_disconnect s) = None \<and>
     fst (snd (TelegramAdapter_disconnect s)) =
       s\<lparr>isShuttingDown := True, runner := None, bot := None, status := DISCONNECTED\<rparr> \<and>
     TelegramAdapter_disconnect (fst (snd (TelegramAdapter_disconnect s))) =
       (None, fst (snd (TelegramAdapter_disconnect s)),
        [Log LogInfo ''Disconnecting from Telegram...'', StatusChange DISCONNECTED None,
         Log LogInfo ''Telegram bot disconnected''])"
  using assms by (cases "runner s"; cases "bot s")
    (simp_all add: TelegramAdapter_disconnect_def prog_defs configWebhookUrl_def
      split: option.splits)

lemma DiscordAdapter_disconnect_ok:
  assumes "options s = Some opts" "onStatusChange opts DISCONNECTED None = None"
    "\<forall>c. client s = Some c \<longrightarrow> destroy c = None"
  shows "fst (DiscordAdapter_disconnect s) = None \<and>
     fst (snd (DiscordAdapter_disconnect s)) =
       s\<lparr>isShuttingDown := True, client := None, status := DISCONNECTED\<rparr> \<and>
     DiscordAdapter_disconnect (fst (snd (DiscordAdapter_disconnect s))) =
       (None, fst (snd (DiscordAdapter_disconnect s)),
        [Log LogInfo ''Disconnecting from Discord...'', StatusChange DISCONNECTED None,
         Log LogInfo ''Discord bot disconnected''])"
  using assms by (cases "client s") (simp_all add: DiscordAdapter_disconnect_def prog_defs)

text \<open>
  Claim C3, as stated, fails: \<open>disconnect()\<close> on an adapter that was never initialised reads
  \<open>this.options.logger\<close> of an undefined \<open>options\<close> and throws, in each of the three
  variants; and the error of a failing platform call is not caught either (here the
  \<open>logout()\<close> of the WhatsApp socket): the method rejects and the status stays connected.
\<close>

theorem disconnect_throws_counterexample:
  "WhatsAppAdapter_disconnect WhatsAppAdapter_new =
     (Some (TypeError ''Cannot read properties of undefined''),
      WhatsAppAdapter_new\<lparr>isShuttingDown := True\<rparr>, []) \<and>
   TelegramAdapter_disconnect TelegramAdapter_new =
     (Some (TypeError ''Cannot read properties of undefined''),
      TelegramAdapter_new\<lparr>isShuttingDown := True\<rparr>, []) \<and>
   DiscordAdapter_disconnect DiscordAdapter_new =
     (Some (TypeError ''Cannot read properties of undefined''),
      DiscordAdapter_new\<lparr>isShuttingDown := True\<rparr>, []) \<and>
   WhatsAppAdapter_disconnect (whatsappLive\<lparr>socket := Some \<lparr>logout = Some (Error ''Connection Closed'')\<rparr>\<rparr>) =
     (Some (Error ''Connection Closed''),
      whatsappLive\<lparr>socket := Some \<lparr>logout = Some (Error ''Connection Closed'')\<rparr>, isShuttingDown := True\<rparr>,
      [Log LogInfo ''Disconnecting from WhatsApp...'', Call ''socket.logout''])"
  by (simp add: WhatsAppAdapter_disconnect_def TelegramAdapter_disconnect_def
      DiscordAdapter_disconnect_def WhatsAppAdapter_new_def TelegramAdapter_new_def
      DiscordAdapter_new_def whatsappLive_def prog_defs)

text \<open>
  Claim C3, amended. For an initialised adapter of any variant whose status callback and
  whose platform teardown calls (\<open>logout\<close>; \<open>runner.stop\<close> and \<open>deleteWebhook\<close>;
  \<open>destroy\<close>) complete without error, \<open>disconnect()\<close> completes, clears the connection and
  leaves the status disconnected; called again on the result it completes again, changes
  nothing, and only logs and reports the disconnected status once more. This covers the
  adapter that has no connection.
\<close>

theorem disconnect_idempotent_when_teardown_succeeds:
  "(options sw = Some ow \<and> onStatusChange ow DISCONNECTED None = None \<and>
    (\<forall>sock. socket sw = Some sock \<longrightarrow> logout sock = None) \<longrightarrow>
      fst (WhatsAppAdapter_disconnect sw) = None \<and>
      fst (snd (WhatsAppAdapter_disconnect sw)) =
        sw\<lparr>isShuttingDown := True, socket := None, status := DISCONNECTED\<rparr> \<and>
      WhatsAppAdapter_disconnect (fst (snd (WhatsAppAdapter_disconnect sw))) =
        (None, fst (snd (WhatsAppAdapter_disconnect sw)),
         [Log LogInfo ''Disconnecting from WhatsApp...'', StatusChange DISCONNECTED None,
          Log LogInfo ''WhatsApp disconnected''])) \<and>
   (options st = Some ot \<and> onStatusChange ot DISCONNECTED None = None \<and>
    (\<forall>r. runner st = Some r \<longrightarrow> stop r = None) \<and>
    (\<forall>b. bot st = Some b \<longrightarrow> deleteWebhook b = None) \<longrightarrow>
      fst (TelegramAdapter_disconnect st) = None \<and>
      fst (snd (TelegramAdapter_disconnect st)) =
        st\<lparr>isShuttingDown := True, runner := None, bot := None, status := DISCONNECTED\<rparr> \<and>
      TelegramAdapter_disconnect (fst (snd (TelegramAdapter_disconnect st))) =
        (None, fst (snd (TelegramAdapter_disconnect st)),
         [Log LogInfo ''Disconnecting from Telegram...'', StatusChange DISCONNECTED None,
          Log LogInfo ''Telegram bot disconnected''])) \<and>
   (options sd = Some od \<and> onStatusChange od DISCONNECTED None = None \<and>
    (\<forall>c. client sd = Some c \<longrightarrow> destroy c = None) \<longrightarrow>
      fst (DiscordAdapter_disconnect sd) = None \<and>
      fst (snd (DiscordAdapter_disconnect sd)) =
        sd\<lparr>isShuttingDown := True, client := None, status := DISCONNECTED\<rparr> \<and>
      DiscordAdapter_disconnect (fst (snd (DiscordAdapter_disconnect sd))) =
        (None, fst (snd (DiscordAdapter_disconnect sd)),
         [Log LogInfo ''Disconnecting from Discord...'', StatusChange DISCONNECTED None,
          Log LogInfo ''Discord bot disconnected'']))"
  using WhatsAppAdapter_disconnect_ok [of sw ow] TelegramAdapter_disconnect_ok [of st ot]
    DiscordAdapter_disconnect_ok [of sd od]
  by blast

theorem disconnect_idempotent_when_teardown_succeeds_witness:
  "(options whatsappLive = Some \<lparr>config = \<lparr>sessionId = ''s1'', phoneNumber = None\<rparr>,
                                  onStatusChange = (\<lambda>st detail. None)\<rparr> \<and>
    socket whatsappLive = Some \<lparr>logout = None\<rparr>) \<and>
   fst (WhatsAppAdapter_disconnect whatsappLive) = None \<and>
   status (fst (snd (WhatsAppAdapter_disconnect whatsappLive))) = DISCONNECTED \<and>
   (options telegramLive \<noteq> None \<and> runner telegramLive = None \<and>
    bot telegramLive = Some \<lparr>deleteWebhook = None, setWebhook = None\<rparr>) \<and>
   fst (TelegramAdapter_disconnect telegramLive) = None \<and>
   status (fst (snd (TelegramAdapter_disconnect telegramLive))) = DISCONNECTED \<and>
   (options discordLive \<noteq> None \<and>
    client discordLive = Some \<lparr>login = None, destroy = None\<rparr>) \<and>
   fst (DiscordAdapter_disconnect discordLive) = None \<and>
   status (fst (snd (DiscordAdapter_disconnect discordLive))) = DISCONNECTED"
proof -
  let ?ow = "\<lparr>config = \<lparr>sessionId = ''s1'', phoneNumber = None\<rparr>,
              onStatusChange = (\<lambda>st detail. None)\<rparr>"
  let ?ot = "\<lparr>config = \<lparr>botToken = ''123:abc'', botUsername = None,
                         webhookUrl = Some ''https://example.org/hook'', webhookSecret = None\<rparr>,
              onStatusChange = (\<lambda>st detail. None)\<rparr>"
  let ?od = "\<lparr>config = \<lparr>discordBotToken = ''tok'', applicationId = ''app'',
                         guildId = None, intents = [''Guilds'']\<rparr>,
              onStatusChange = (\<lambda>st detail. None)\<rparr>"
  note T = disconnect_idempotent_when_teardown_succeeds
    [of whatsappLive ?ow telegramLive ?ot discordLive ?od]
  have Hw: "options whatsappLive = Some ?ow \<and> onStatusChange ?ow DISCONNECTED None = None \<and>
      (\<forall>sock. socket whatsappLive = Some sock \<longrightarrow> logout sock = None)"
    by (simp add: whatsappLive_def)
  have Ht: "options telegramLive = Some ?ot \<and> onStatusChange ?ot DISCONNECTED None = None \<and>
      (\<forall>r. runner telegramLive = Some r \<longrightarrow> stop r = None) \<and>
      (\<forall>b. bot telegramLive = Some b \<longrightarrow> deleteWebhook b = None)"
    by (simp add: telegramLive_def)
  have Hd: "options discordLive = Some ?od \<and> onStatusChange ?od DISCONNECTED None = None \<and>
      (\<forall>c. client discordLive = Some c \<longrightarrow> destroy c = None)"
    by (simp add: discordLive_def)
  have Cw: "fst (WhatsAppAdapter_disconnect whatsappLive) = None \<and>
      fst (snd (WhatsAppAdapter_disconnect whatsappLive)) =
        whatsappLive\<lparr>isShuttingDown := True, socket := None, status := DISCONNECTED\<rparr>"
    using T Hw by blast
  have Ct: "fst (TelegramAdapter_disconnect telegramLive) = None \<and>
      fst (snd (TelegramAdapter_disconnect telegramLive)) =
        telegramLive\<lparr>isShuttingDown := True, runner := None, bot := None, status := DISCONNECTED\<rparr>"
    using T Ht by blast
  have Cd: "fst (DiscordAdapter_disconnect discordLive) = None \<and>
      fst (snd (DiscordAdapter_disconnect discordLive)) =
        discordLive\<lparr>isShuttingDown := True, client := None, status := DISCONNECTED\<rparr>"
    using T Hd by blast
  have E: "socket whatsappLive = Some \<lparr>logout = None\<rparr>" "runner telegramLive = None"
    "bot telegramLive = Some \<lparr>deleteWebhook = None, setWebhook = None\<rparr>"
    "client discordLive = Some \<lparr>login = None, destroy = None\<rparr>"
    by (simp_all add: whatsappLive_def telegramLive_def discordLive_def)
  show ?thesis using Hw Ht Hd Cw Ct Cd E by simp
qed

lemma connect_connected:
  "status sw = CONNECTED \<Longrightarrow>
     WhatsAppAdapter_connect bl sw = logger LogWarn ''WhatsApp already connected'' sw"
  "status st = CONNECTED \<Longrightarrow>
     TelegramAdapter_connect gl st = logger LogWarn ''Telegram already connected'' st"
  "status sd = CONNECTED \<Longrightarrow>
     DiscordAdapter_connect dl sd = logger LogWarn ''Discord already connected'' sd"
  by (simp_all add: WhatsAppAdapter_connect_def TelegramAdapter_connect_def
      DiscordAdapter_connect_def)

lemma logger_result:
  "fst (snd (logger l m s)) = s \<and> set (snd (snd (logger l m s))) \<subseteq> {Log l m} \<and>
   (options s \<noteq> None \<longrightarrow> logger l m s = (None, s, [Log l m]))"
  by (auto simp: logger_def split: option.splits)

text \<open>
  Claim C6. In each variant, \<open>connect()\<close> on an adapter whose status is connected leaves
  the adapter unchanged (status, stats and connection included) and does nothing but log a
  warning: no platform function is called and no status change is reported. On an
  initialised adapter the call returns normally. (\<open>connect()\<close> itself never brings an
  adapter that is not initialised to the connected status.)
\<close>

theorem connect_when_connected_is_noop:
  "(status sw = CONNECTED \<longrightarrow>
      fst (snd (WhatsAppAdapter_connect bl sw)) = sw \<and>
      set (snd (snd (WhatsAppAdapter_connect bl sw))) \<subseteq> {Log LogWarn ''WhatsApp already connected''} \<and>
      (options sw \<noteq> None \<longrightarrow>
         WhatsAppAdapter_connect bl sw = (None, sw, [Log LogWarn ''WhatsApp already connected'']))) \<and>
   (status st = CONNECTED \<longrightarrow>
      fst (snd (TelegramAdapter_connect gl st)) = st \<and>
      set (snd (snd (TelegramAdapter_connect gl st))) \<subseteq> {Log LogWarn ''Telegram already connected''} \<and>
      (options st \<noteq> None \<longrightarrow>
         TelegramAdapter_connect gl st = (None, st, [Log LogWarn ''Telegram already connected'']))) \<and>
   (status sd = CONNECTED \<longrightarrow>
      fst (snd (DiscordAdapter_connect dl sd)) = sd \<and>
      set (snd (snd (DiscordAdapter_connect dl sd))) \<subseteq> {Log LogWarn ''Discord already connected''} \<and>
      (options sd \<noteq> None \<longrightarrow>
         DiscordAdapter_connect dl sd = (None, sd, [Log LogWarn ''Discord already connected''])))"
  using logger_result [of LogWarn "''WhatsApp already connected''" sw]
    logger_result [of LogWarn "''Telegram already connected''" st]
    logger_result [of LogWarn "''Discord already connected''" sd]
  by (simp add: connect_connected)

theorem connect_when_connected_is_noop_witness:
  "(options whatsappLive \<noteq> None \<and> status whatsappLive = CONNECTED) \<and>
   WhatsAppAdapter_connect baileysOk whatsappLive =
     (None, whatsappLive, [Log LogWarn ''WhatsApp already connected'']) \<and>
   (options telegramLive \<noteq> None \<and> status telegramLive = CONNECTED) \<and>
   TelegramAdapter_connect grammyOk telegramLive =
     (None, telegramLive, [Log LogWarn ''Telegram already connected'']) \<and>
   (options discordLive \<noteq> None \<and> status discordLive = CONNECTED) \<and>
   DiscordAdapter_connect discordOk discordLive =
     (None, discordLive, [Log LogWarn ''Discord already connected''])"
proof -
  note T = connect_when_connected_is_noop
    [of whatsappLive baileysOk telegramLive grammyOk discordLive discordOk]
  have Hw: "options whatsappLive \<noteq> None \<and> status whatsappLive = CONNECTED"
    by (simp add: whatsappLive_def)
  have Ht: "options telegramLive \<noteq> None \<and> status telegramLive = CONNECTED"
    by (simp add: telegramLive_def)
  have Hd: "options discordLive \<noteq> None \<and> status discordLive = CONNECTED"
    by (simp add: discordLive_def)
  have C: "WhatsAppAdapter_connect baileysOk whatsappLive =
       (None, whatsappLive, [Log LogWarn ''WhatsApp already connected'']) \<and>
     TelegramAdapter_connect grammyOk telegramLive =
       (None, telegramLive, [Log LogWarn ''Telegram already connected'']) \<and>
     DiscordAdapter_connect discordOk discordLive =
       (None, discordLive, [Log LogWarn ''Discord already connected''])"
    using T Hw Ht Hd by blast
  show ?thesis using C Hw Ht Hd by blast
qed

lemma uninitialised_never_connected:
  "options sw = None \<Longrightarrow> status sw \<noteq> CONNECTED \<Longrightarrow>
     status (fst (snd (WhatsAppAdapter_connect bl sw))) \<noteq> CONNECTED"
  "options st = None \<Longrightarrow> status st \<noteq> CONNECTED \<Longrightarrow>
     status (fst (snd (TelegramAdapter_connect gl st))) \<noteq> CONNECTED"
  "options sd = None \<Longrightarrow> status sd \<noteq> CONNECTED \<Longrightarrow>
     status (fst (snd (DiscordAdapter_connect dl sd))) \<noteq> CONNECTED"
  by (simp_all add: WhatsAppAdapter_connect_def TelegramAdapter_connect_def
      DiscordAdapter_connect_def prog_defs)

lemma close_exhausted:
  assumes "options s = Some opts" "\<not> isShuttingDown s" "c \<noteq> Some DisconnectReason_loggedOut"
    "maxReconnectAttempts s \<le> reconnectAttempts s"
  shows "WhatsAppAdapter_handleConnectionClose c s =
     (onStatusChange opts ERROR (Some ''Max reconnection attempts reached''),
      s\<lparr>status := ERROR\<rparr>,
      [Log LogInfo ''WhatsApp connection closed'',
       StatusChange ERROR (Some ''Max reconnection attempts reached'')])"
  using assms
  by (simp add: WhatsAppAdapter_handleConnectionClose_def prog_defs Let_def split: option.splits)

lemma run_exhausted:
  assumes "options s = Some opts" "\<not> isShuttingDown s"
    "maxReconnectAttempts s \<le> reconnectAttempts s"
    "\<forall>u \<in> set us. \<exists>c. u = Close c \<and> c \<noteq> Some DisconnectReason_loggedOut"
  shows "fst (WhatsAppAdapter_run us s) = (if us = [] then s else s\<lparr>status := ERROR\<rparr>) \<and>
     snd (WhatsAppAdapter_run us s) =
       concat (map (\<lambda>u. [Log LogInfo ''WhatsApp connection closed'',
                          StatusChange ERROR (Some ''Max reconnection attempts reached'')]) us)"
  using assms
proof (induction us arbitrary: s)
  case Nil
  then show ?case by simp
next
  case (Cons u us)
  from Cons.prems(4) obtain c where u: "u = Close c" and c: "c \<noteq> Some DisconnectReason_loggedOut"
    by auto
  let ?s' = "s\<lparr>status := ERROR\<rparr>"
  let ?es = "[Log LogInfo ''WhatsApp connection closed'',
       StatusChange ERROR (Some ''Max reconnection attempts reached'')]"
  have h: "WhatsAppAdapter_handleConnectionClose c s =
      (onStatusChange opts ERROR (Some ''Max reconnection attempts reached''), ?s', ?es)"
    using close_exhausted [OF Cons.prems(1,2) c Cons.prems(3)] .
  have ih: "fst (WhatsAppAdapter_run us ?s') = (if us = [] then ?s' else ?s'\<lparr>status := ERROR\<rparr>) \<and>
     snd (WhatsAppAdapter_run us ?s') = concat (map (\<lambda>u. ?es) us)"
    using Cons.IH [of ?s'] Cons.prems by simp
  show ?case using u h ih by (auto split: prod.splits)
qed

lemma discordLive_shard_disconnect:
  "DiscordAdapter_onShardDisconnect discordOk discordLive =
     (None, discordLive,
      [Log LogWarn ''Discord client disconnected'',
       Log LogInfo ''Attempting to reconnect to Discord...'',
       Call ''client.destroy'', Log LogWarn ''Discord already connected''])"
  by (simp add: DiscordAdapter_onShardDisconnect_def DiscordAdapter_attemptReconnect_def
      DiscordAdapter_connect_def discordLive_def discordOk_def prog_defs)

lemma discordLive_run: "fst (DiscordAdapter_run discordOk n discordLive) = discordLive"
  by (induction n) (auto simp: discordLive_shard_disconnect split: prod.splits)

text \<open>
  Claim C4, as stated for every variant, fails on the Discord adapter, which counts no
  attempts and has no maximum: after ten shard disconnects of a connected adapter the
  eleventh still runs \<open>attemptReconnect\<close>, which destroys the client and calls \<open>connect()\<close>,
  and the status is connected, not error.
\<close>

theorem discord_reconnect_unbounded_counterexample:
  "DiscordAdapter_onShardDisconnect discordOk (fst (DiscordAdapter_run discordOk 10 discordLive)) =
     (None, discordLive,
      [Log LogWarn ''Discord client disconnected'',
       Log LogInfo ''Attempting to reconnect to Discord...'',
       Call ''client.destroy'', Log LogWarn ''Discord already connected'']) \<and>
   status (fst (DiscordAdapter_run discordOk 11 discordLive)) \<noteq> ERROR"
  by (simp only: discordLive_run discordLive_shard_disconnect) (simp add: discordLive_def)

text \<open>
  Claim C4, amended to the WhatsApp adapter, the one variant that counts attempts. Once
  \<open>reconnectAttempts\<close> has reached \<open>maxReconnectAttempts\<close>, a transient \<open>close\<close> update
  outside shutdown does exactly this: it logs the close, sets the status to error and
  reports that status, with the message \<open>Max reconnection attempts reached\<close>, to the
  status callback, whose outcome is the outcome of the handler; it sets no timer, calls no
  platform function and leaves the attempt counter as it is. Every run of such closes
  therefore consists of these two actions per close and leaves the adapter unchanged but
  for the status, which is error after the first close. The Discord and Telegram adapters
  keep no attempt count; nothing is stated about them.
\<close>

theorem whatsapp_reconnect_exhausted:
  "options s = Some opts \<and> \<not> isShuttingDown s \<and>
   maxReconnectAttempts s \<le> reconnectAttempts s \<and>
   (\<forall>u \<in> set us. \<exists>c. u = Close c \<and> c \<noteq> Some DisconnectReason_loggedOut) \<longrightarrow>
     (\<forall>c. c \<noteq> Some DisconnectReason_loggedOut \<longrightarrow>
        WhatsAppAdapter_handleEvent (Close c) s =
          (onStatusChange opts ERROR (Some ''Max reconnection attempts reached''),
           s\<lparr>status := ERROR\<rparr>,
           [Log LogInfo ''WhatsApp connection closed'',
            StatusChange ERROR (Some ''Max reconnection attempts reached'')])) \<and>
     fst (WhatsAppAdapter_run us s) = (if us = [] then s else s\<lparr>status := ERROR\<rparr>) \<and>
     snd (WhatsAppAdapter_run us s) =
       concat (map (\<lambda>u. [Log LogInfo ''WhatsApp connection closed'',
                          StatusChange ERROR (Some ''Max reconnection attempts reached'')]) us)"
  using run_exhausted [of s opts us] close_exhausted [of s opts]
  by auto

theorem whatsapp_reconnect_exhausted_witness:
  "(options (whatsappLive\<lparr>reconnectAttempts := 10\<rparr>) \<noteq> None \<and>
    \<not> isShuttingDown (whatsappLive\<lparr>reconnectAttempts := 10\<rparr>) \<and>
    maxReconnectAttempts (whatsappLive\<lparr>reconnectAttempts := 10\<rparr>)
      \<le> reconnectAttempts (whatsappLive\<lparr>reconnectAttempts := 10\<rparr>) \<and>
    Some DisconnectReason_loggedOut \<notin> set [None, Some 428]) \<and>
   fst (WhatsAppAdapter_run [Close None, Close (Some 428)] (whatsappLive\<lparr>reconnectAttempts := 10\<rparr>)) =
     whatsappLive\<lparr>reconnectAttempts := 10, status := ERROR\<rparr> \<and>
   snd (WhatsAppAdapter_run [Close None, Close (Some 428)] (whatsappLive\<lparr>reconnectAttempts := 10\<rparr>)) =
     [Log LogInfo ''WhatsApp connection closed'',
      StatusChange ERROR (Some ''Max reconnection attempts reached''),
      Log LogInfo ''WhatsApp connection closed'',
      StatusChange ERROR (Some ''Max reconnection attempts reached'')]"
proof -
  let ?s = "whatsappLive\<lparr>reconnectAttempts := 10\<rparr>"
  let ?us = "[Close None, Close (Some 428)]"
  let ?es = "[Log LogInfo ''WhatsApp connection closed'',
      StatusChange ERROR (Some ''Max reconnection attempts reached'')]"
  note T = whatsapp_reconnect_exhausted [of ?s "the (options ?s)" ?us]
  have H: "options ?s = Some (the (options ?s)) \<and> \<not> isShuttingDown ?s \<and>
      maxReconnectAttempts ?s \<le> reconnectAttempts ?s \<and>
      (\<forall>u \<in> set ?us. \<exists>c. u = Close c \<and> c \<noteq> Some DisconnectReason_loggedOut)"
    by (simp add: whatsappLive_def DisconnectReason_loggedOut_def)
  have C: "fst (WhatsAppAdapter_run ?us ?s) = (if ?us = [] then ?s else ?s\<lparr>status := ERROR\<rparr>) \<and>
     snd (WhatsAppAdapter_run ?us ?s) = concat (map (\<lambda>u. ?es) ?us)"
    using T H by blast
  have N: "options ?s \<noteq> None" by (simp add: whatsappLive_def)
  have C1: "fst (WhatsAppAdapter_run ?us ?s) = whatsappLive\<lparr>reconnectAttempts := 10, status := ERROR\<rparr>"
    using C by simp
  have C2: "snd (WhatsAppAdapter_run ?us ?s) = ?es @ ?es"
    using C by simp
  have H': "Some DisconnectReason_loggedOut \<notin> set [None, Some 428]"
    by (simp add: DisconnectReason_loggedOut_def)
  show ?thesis using H H' N C1 C2 by simp
qed


subsection \<open>Gateway shutdown\<close>

lemma shutdown_steps:
  assumes "io s = Some srv" "pubClient s = Some p" "subClient s = Some q"
  shows "OpenClawGateway_shutdown s =
     (case emitThrows srv of
        Some e \<Rightarrow> (Some e, s, [Call ''io.emit server.shutdown''])
      | None \<Rightarrow>
          (case closeThrows srv of
             Some e \<Rightarrow> (Some e, s, [Call ''io.emit server.shutdown'', Call ''io.close''])
           | None \<Rightarrow>
               (case quitResult p of
                  Some e \<Rightarrow> (Some e, s, [Call ''io.emit server.shutdown'', Call ''io.close'',
                                          Call ''pubClient.quit''])
                | None \<Rightarrow>
                    (case quitResult q of
                       Some e \<Rightarrow> (Some e, s, [Call ''io.emit server.shutdown'', Call ''io.close'',
                                               Call ''pubClient.quit'', Call ''subClient.quit''])
                     | None \<Rightarrow> (None, s, [Call ''io.emit server.shutdown'', Call ''io.close'',
                                           Call ''pubClient.quit'', Call ''subClient.quit'',
                                           Log LogInfo ''WebSocket gateway shut down'']))))) "
  using assms by (simp add: OpenClawGateway_shutdown_def prog_defs split: option.splits)

lemma shutdown_untilFailure:
  "OpenClawGateway_shutdown s =
     (case untilFailure (shutdownSteps s) of
        (None, es) \<Rightarrow> (None, s, es @ [Log LogInfo ''WebSocket gateway shut down''])
      | (Some e, es) \<Rightarrow> (Some e, s, es))"
  by (cases "io s"; cases "pubClient s"; cases "subClient s")
    (simp_all add: OpenClawGateway_shutdown_def shutdownSteps_def prog_defs split: option.splits)

lemma shutdown_ignores_closeRejects:
  "OpenClawGateway_shutdown (s\<lparr>io := Some (srv\<lparr>closeRejects := r\<rparr>)\<rparr>) =
     (fst (OpenClawGateway_shutdown (s\<lparr>io := Some srv\<rparr>)),
      s\<lparr>io := Some (srv\<lparr>closeRejects := r\<rparr>)\<rparr>,
      snd (snd (OpenClawGateway_shutdown (s\<lparr>io := Some srv\<rparr>))))"
  by (simp add: shutdown_untilFailure shutdownSteps_def split: prod.splits option.splits)

text \<open>
  Claim C7, as stated, fails in its second half: no step of \<open>shutdown\<close> is guarded. When
  the call \<open>io.close()\<close> throws, neither Redis client is closed; when \<open>pubClient.quit()\<close>
  rejects, \<open>subClient.quit()\<close> is not called.
\<close>

theorem gateway_shutdown_unguarded_counterexample:
  "OpenClawGateway_shutdown
     (gatewayLive\<lparr>io := Some \<lparr>emitThrows = None, closeThrows = Some (Error ''close failed''),
                               closeRejects = None\<rparr>\<rparr>) =
     (Some (Error ''close failed''),
      gatewayLive\<lparr>io := Some \<lparr>emitThrows = None, closeThrows = Some (Error ''close failed''),
                                closeRejects = None\<rparr>\<rparr>,
      [Call ''io.emit server.shutdown'', Call ''io.close'']) \<and>
   OpenClawGateway_shutdown
     (gatewayLive\<lparr>pubClient := Some \<lparr>quitResult = Some (Error ''Connection is closed.'')\<rparr>\<rparr>) =
     (Some (Error ''Connection is closed.''),
      gatewayLive\<lparr>pubClient := Some \<lparr>quitResult = Some (Error ''Connection is closed.'')\<rparr>\<rparr>,
      [Call ''io.emit server.shutdown'', Call ''io.close'', Call ''pubClient.quit''])"
  by (simp add: OpenClawGateway_shutdown_def gatewayLive_def prog_defs)

text \<open>
  Claim C7, amended. \<open>shutdown\<close> runs the steps that its handles give rise to, in the order
  notice, transport, broker: with a server, the \<open>server.shutdown\<close> notice and then
  \<open>io.close()\<close>; with a publishing client, its \<open>quit()\<close>; with a subscribing client, its
  \<open>quit()\<close>; a handle that is not set contributes no step. The first step that fails ends
  the shutdown with its error, no later step is executed, and the closing line is logged
  only when every step succeeded. A step fails when the emit or the close call throws or
  when an awaited \<open>quit()\<close> rejects; the promise of \<open>io.close()\<close> is not awaited, so its
  rejection changes neither the outcome nor the steps that follow. For a gateway with all
  three handles the four calls are written out; with none, the shutdown only logs.
\<close>

theorem gateway_shutdown_order:
  "OpenClawGateway_shutdown s =
     (case untilFailure (shutdownSteps s) of
        (None, es) \<Rightarrow> (None, s, es @ [Log LogInfo ''WebSocket gateway shut down''])
      | (Some e, es) \<Rightarrow> (Some e, s, es)) \<and>
   OpenClawGateway_shutdown (s\<lparr>io := Some (srv'\<lparr>closeRejects := r\<rparr>)\<rparr>) =
     (fst (OpenClawGateway_shutdown (s\<lparr>io := Some srv'\<rparr>)),
      s\<lparr>io := Some (srv'\<lparr>closeRejects := r\<rparr>)\<rparr>,
      snd (snd (OpenClawGateway_shutdown (s\<lparr>io := Some srv'\<rparr>)))) \<and>
   (io s = Some srv \<and> pubClient s = Some p \<and> subClient s = Some q \<longrightarrow>
    OpenClawGateway_shutdown s =
     (case emitThrows srv of
        Some e \<Rightarrow> (Some e, s, [Call ''io.emit server.shutdown''])
      | None \<Rightarrow>
          (case closeThrows srv of
             Some e \<Rightarrow> (Some e, s, [Call ''io.emit server.shutdown'', Call ''io.close''])
           | None \<Rightarrow>
               (case quitResult p of
                  Some e \<Rightarrow> (Some e, s, [Call ''io.emit server.shutdown'', Call ''io.close'',
                                          Call ''pubClient.quit''])
                | None \<Rightarrow>
                    (case quitResult q of
                       Some e \<Rightarrow> (Some e, s, [Call ''io.emit server.shutdown'', Call ''io.close'',
                                               Call ''pubClient.quit'', Call ''subClient.quit''])
                     | None \<Rightarrow> (None, s, [Call ''io.emit server.shutdown'', Call ''io.close'',
                                           Call ''pubClient.quit'', Call ''subClient.quit'',
                                           Log LogInfo ''WebSocket gateway shut down''])))))) \<and>
   (io s = None \<and> pubClient s = None \<and> subClient s = None \<longrightarrow>
    OpenClawGateway_shutdown s = (None, s, [Log LogInfo ''WebSocket gateway shut down'']))"
  using shutdown_steps [of s srv p q] shutdown_untilFailure [of s]
    shutdown_ignores_closeRejects [where s = s and srv = srv' and r = r]
  by (auto simp: shutdownSteps_def)

theorem gateway_shutdown_order_witness:
  "(io gatewayLive = Some \<lparr>emitThrows = None, closeThrows = None, closeRejects = None\<rparr> \<and>
    pubClient gatewayLive = Some \<lparr>quitResult = None\<rparr> \<and>
    subClient gatewayLive = Some \<lparr>quitResult = None\<rparr>) \<and>
   OpenClawGateway_shutdown gatewayLive =
     (None, gatewayLive,
      [Call ''io.emit server.shutdown'', Call ''io.close'', Call ''pubClient.quit'',
       Call ''subClient.quit'', Log LogInfo ''WebSocket gateway shut down'']) \<and>
   OpenClawGateway_shutdown
     (gatewayLive\<lparr>io := Some \<lparr>emitThrows = None, closeThrows = None,
                               closeRejects = Some (Error ''close failed'')\<rparr>\<rparr>) =
     (None,
      gatewayLive\<lparr>io := Some \<lparr>emitThrows = None, closeThrows = None,
                               closeRejects = Some (Error ''close failed'')\<rparr>\<rparr>,
      [Call ''io.emit server.shutdown'', Call ''io.close'', Call ''pubClient.quit'',
       Call ''subClient.quit'', Log LogInfo ''WebSocket gateway shut down'']) \<and>
   OpenClawGateway_shutdown (gatewayLive\<lparr>io := None, pubClient := None, subClient := None\<rparr>) =
     (None, gatewayLive\<lparr>io := None, pubClient := None, subClient := None\<rparr>,
      [Log LogInfo ''WebSocket gateway shut down''])"
proof -
  let ?srv = "\<lparr>emitThrows = None, closeThrows = None, closeRejects = None\<rparr>"
  let ?idle = "gatewayLive\<lparr>io := None, pubClient := None, subClient := None\<rparr>"
  note U = gateway_shutdown_order [where s = ?idle]
  have C3: "OpenClawGateway_shutdown ?idle = (None, ?idle, [Log LogInfo ''WebSocket gateway shut down''])"
    using U [THEN conjunct2, THEN conjunct2, THEN conjunct2] by simp
  note T = gateway_shutdown_order [where s = gatewayLive and srv' = ?srv
      and r = "Some (Error ''close failed'')" and srv = ?srv
      and p = "\<lparr>quitResult = None\<rparr>" and q = "\<lparr>quitResult = None\<rparr>"]
  have H: "io gatewayLive = Some ?srv \<and>
      pubClient gatewayLive = Some \<lparr>quitResult = None\<rparr> \<and>
      subClient gatewayLive = Some \<lparr>quitResult = None\<rparr>"
    by (simp add: gatewayLive_def)
  have G: "gatewayLive\<lparr>io := Some ?srv\<rparr> = gatewayLive"
    by (simp add: gatewayLive_def)
  have C1: "OpenClawGateway_shutdown gatewayLive =
     (None, gatewayLive,
      [Call ''io.emit server.shutdown'', Call ''io.close'', Call ''pubClient.quit'',
       Call ''subClient.quit'', Log LogInfo ''WebSocket gateway shut down''])"
    using T [THEN conjunct2, THEN conjunct2, THEN conjunct1] H by simp
  have C2: "OpenClawGateway_shutdown (gatewayLive\<lparr>io := Some (?srv\<lparr>closeRejects := Some (Error ''close failed'')\<rparr>)\<rparr>) =
     (fst (OpenClawGateway_shutdown (gatewayLive\<lparr>io := Some ?srv\<rparr>)),
      gatewayLive\<lparr>io := Some (?srv\<lparr>closeRejects := Some (Error ''close failed'')\<rparr>)\<rparr>,
      snd (snd (OpenClawGateway_shutdown (gatewayLive\<lparr>io := Some ?srv\<rparr>))))"
    using T [THEN conjunct2, THEN conjunct1] .
  show ?thesis using H C1 C2 C3 by (simp add: G)
qed


subsection \<open>Token cache\<close>

lemma sliceFromEnd_lastChars: "sliceFromEnd n s = lastChars n s"
proof -
  have "nat (max (int (length s) - int n) 0) = length s - n" by arith
  then show ?thesis by (simp add: sliceFromEnd_def lastChars_def take_rev)
qed

lemma getCacheKey_suffix: "lastChars 16 t1 = lastChars 16 t2 \<Longrightarrow> getCacheKey t1 = getCacheKey t2"
  by (simp add: getCacheKey_def sliceFromEnd_lastChars)

lemma getCacheKey_suffix_iff: "(getCacheKey t1 = getCacheKey t2) = (lastChars 16 t1 = lastChars 16 t2)"
  by (simp add: getCacheKey_def sliceFromEnd_lastChars)

lemma validateToken_hit:
  assumes "redis s = Some c" "redisUp w" "c (utf8OfString (getCacheKey t1)) = Some (u, expiresAt)"
    "now < expiresAt" "\<not> (exp u \<noteq> 0 \<and> exp u * 1000 < now)"
    "lastChars 16 t2 = lastChars 16 t1"
  shows "validateToken w now t2 s = (Inr u, s, [])"
proof -
  have k: "getCacheKey t2 = getCacheKey t1" using assms(6) by (rule getCacheKey_suffix)
  have "getCachedToken w now t2 s = (Some u, s)"
    using assms(1-5) by (auto simp: getCachedToken_def redisGet_def Let_def k)
  then show ?thesis by (simp add: validateToken_def)
qed

lemma cacheToken_stores:
  assumes "redis s = Some c" "redisUp w" "exp u = 0 \<or> now + 1000 \<le> exp u * 1000"
    "0 < cacheTTL s"
  shows "\<exists>c' e. redis (cacheToken w now t1 u s) = Some c' \<and>
     c' (utf8OfString (getCacheKey t1)) = Some (u, e) \<and> now < e"
  using assms by (auto simp: cacheToken_def Let_def min_def)

lemma validate_alice:
  "validateToken worldOne 1500000 tokenAlice clientWithRedis =
     (Inr alice,
      clientWithRedis\<lparr>redis := Some [utf8OfString (getCacheKey tokenAlice) \<mapsto> (alice, 1800000)]\<rparr>,
      [Call ''POST /v1/auth/validate''])"
  by (simp add: validateToken_def getCachedToken_def redisGet_def worldOne_def
      clientWithRedis_def cacheToken_def alice_def mapTier_def Let_def)

lemma lastChars_ascii: "lastChars n (ascii s) = ascii (lastChars n s)"
  by (simp add: lastChars_def ascii_def rev_map take_map)

lemma tokens_differ: "tokenOther \<noteq> tokenAlice"
  by code_simp

lemma tokens_share_suffix:
  "tokenAlice \<noteq> tokenOther \<and> lastChars 16 tokenOther = lastChars 16 tokenAlice"
proof -
  have "lastChars 16 ''eyJhbGciOiJI.mallory-load.0123456789abcdef'' =
      lastChars 16 ''eyJhbGciOiJI.alice-payload.0123456789abcdef''"
    by (simp add: lastChars_def)
  then show ?thesis
    using tokens_differ by (simp add: tokenAlice_def tokenOther_def lastChars_ascii)
qed

lemma accented_tokens_keys: "getCacheKey tokenAccentE \<noteq> getCacheKey tokenCopyright"
  by (simp add: getCacheKey_def sliceFromEnd_def tokenAccentE_def tokenCopyright_def ascii_def)

lemma validate_other_uncached:
  "validateToken worldOne 1600000 tokenOther clientWithRedis =
     (Inl (Error ''Failed to decode token''), clientWithRedis, [])"
  using tokens_differ
  by (simp add: validateToken_def getCachedToken_def redisGet_def worldOne_def
      clientWithRedis_def)

text \<open>
  Claim C9. The cache key of a token depends only on its last 16 characters, counted as
  \<open>slice\<close> counts them, in UTF-16 code units: two tokens have the same key exactly when
  their last 16 code units are equal. So, with a Redis that answers, once a user is cached
  for a token (as \<open>cacheToken\<close> does for a token that does not expire within the second
  and a positive \<open>cacheTTL\<close>), \<open>validateToken\<close> on any token with the same last 16 code
  units returns that user while the entry lives, with no call to the auth service and no
  change of the cache. (Two tokens that differ in one of the last 16 code units have
  different keys even where the last 16 bytes of their UTF-8 text are the same.)
\<close>

theorem token_cache_key_collision:
  "(lastChars 16 t1 = lastChars 16 t2 \<longrightarrow> getCacheKey t1 = getCacheKey t2) \<and>
   (getCacheKey t1 = getCacheKey t2 \<longrightarrow> lastChars 16 t1 = lastChars 16 t2) \<and>
   (redis s = Some c \<and> redisUp w \<and> (exp u = 0 \<or> now0 + 1000 \<le> exp u * 1000) \<and> 0 < cacheTTL s \<longrightarrow>
      (\<exists>c' e. redis (cacheToken w now0 t1 u s) = Some c' \<and>
         c' (utf8OfString (getCacheKey t1)) = Some (u, e) \<and> now0 < e)) \<and>
   (redis s' = Some c' \<and> redisUp w \<and> c' (utf8OfString (getCacheKey t1)) = Some (u, expiresAt) \<and>
    now < expiresAt \<and> \<not> (exp u \<noteq> 0 \<and> exp u * 1000 < now) \<and>
    lastChars 16 t2 = lastChars 16 t1 \<longrightarrow>
      validateToken w now t2 s' = (Inr u, s', []))"
  using getCacheKey_suffix_iff [of t1 t2] cacheToken_stores [of s c w u now0 t1]
    validateToken_hit [of s' c' w t1 u expiresAt now t2]
  by blast

theorem token_cache_key_collision_witness:
  "tokenAlice \<noteq> tokenOther \<and> lastChars 16 tokenOther = lastChars 16 tokenAlice \<and>
   getCacheKey tokenAlice = getCacheKey tokenOther \<and>
   validateToken worldOne 1500000 tokenAlice clientWithRedis =
     (Inr alice,
      clientWithRedis\<lparr>redis := Some [utf8OfString (getCacheKey tokenAlice) \<mapsto> (alice, 1800000)]\<rparr>,
      [Call ''POST /v1/auth/validate'']) \<and>
   validateToken worldOne 1600000 tokenOther
     (clientWithRedis\<lparr>redis := Some [utf8OfString (getCacheKey tokenAlice) \<mapsto> (alice, 1800000)]\<rparr>) =
     (Inr alice,
      clientWithRedis\<lparr>redis := Some [utf8OfString (getCacheKey tokenAlice) \<mapsto> (alice, 1800000)]\<rparr>, []) \<and>
   validateToken worldOne 1600000 tokenOther clientWithRedis =
     (Inl (Error ''Failed to decode token''), clientWithRedis, []) \<and>
   getCacheKey tokenAccentE \<noteq> getCacheKey tokenCopyright"
proof -
  let ?c = "[utf8OfString (getCacheKey tokenAlice) \<mapsto> (alice, 1800000)]"
  let ?s = "clientWithRedis\<lparr>redis := Some ?c\<rparr>"
  note T = token_cache_key_collision [of tokenAlice tokenOther ?s ?c worldOne alice 1500000 ?s ?c
      1800000 1600000]
  have S: "lastChars 16 tokenAlice = lastChars 16 tokenOther"
    using tokens_share_suffix by simp
  have K: "getCacheKey tokenAlice = getCacheKey tokenOther"
    using T S by blast
  have H: "redis ?s = Some ?c \<and> redisUp worldOne \<and>
      ?c (utf8OfString (getCacheKey tokenAlice)) = Some (alice, 1800000) \<and>
      (1600000::int) < 1800000 \<and> \<not> (exp alice \<noteq> 0 \<and> exp alice * 1000 < 1600000) \<and>
      lastChars 16 tokenOther = lastChars 16 tokenAlice"
    using S by (simp add: worldOne_def alice_def)
  have V: "validateToken worldOne 1600000 tokenOther ?s = (Inr alice, ?s, [])"
    using T H by blast
  show ?thesis
    using tokens_share_suffix K V validate_alice validate_other_uncached accented_tokens_keys
    by simp
qed


subsection \<open>Credential vault\<close>

lemma hexDigit_ascii: "n < 16 \<Longrightarrow> (of_char (hexDigit n) :: nat) < 128"
  by (auto simp: hexDigit_def)

lemma unhex_hexDigit: "n < 16 \<Longrightarrow> unhex (of_char (hexDigit n) mod 256) = Some n"
  by (auto simp: unhex_def hexDigit_def)

lemma codeUnits_ascii: "(of_char c :: nat) < 128 \<Longrightarrow> codeUnits (c # s) = of_char c # codeUnits s"
  by simp

lemma hexPairs_hexDigits:
  assumes "x < 16" "y < 16"
  shows "hexPairs (of_char (hexDigit x) # of_char (hexDigit y) # us) =
           word_of_nat (16 * x + y) # hexPairs us"
  using unhex_hexDigit [OF assms(1)] unhex_hexDigit [OF assms(2)]
  by (simp del: of_char_mod_256)

lemma fromHex_toHex_append: "fromHex (toHex bs @ s) = bs @ fromHex s"
proof (induction bs)
  case Nil
  then show ?case by simp
next
  case (Cons b bs)
  have "unat b < 256" using unsigned_less [of b] by simp
  then have d: "unat b div 16 < 16" and m: "unat b mod 16 < 16" by auto
  have cu: "codeUnits (toHex (b # bs) @ s) =
      of_char (hexDigit (unat b div 16)) # of_char (hexDigit (unat b mod 16)) #
        codeUnits (toHex bs @ s)"
    by (simp only: toHex.simps append_Cons codeUnits_ascii [OF hexDigit_ascii [OF d]]
        codeUnits_ascii [OF hexDigit_ascii [OF m]])
  have w: "(word_of_nat (16 * (unat b div 16) + unat b mod 16) :: byte) = b"
    by simp
  have "fromHex (toHex (b # bs) @ s) =
      word_of_nat (16 * (unat b div 16) + unat b mod 16) # hexPairs (codeUnits (toHex bs @ s))"
    unfolding fromHex_def cu by (rule hexPairs_hexDigits [OF d m])
  also have "\<dots> = b # fromHex (toHex bs @ s)"
    unfolding fromHex_def w ..
  finally show ?case using Cons by simp
qed

lemma fromHex_toHex: "fromHex (toHex bs) = bs"
  using fromHex_toHex_append [of bs "[]"] by (simp add: fromHex_def)

lemma utf8Decode_utf8Encode: "utf8Decode (utf8Encode s) = s"
  by (induction s) (simp_all add: utf8Encode_def utf8Decode_def unat_of_nat)

lemma decrypt_of_record:
  assumes "JSON_parse lib encrypted =
      Some (JObject [(''iv'', JString ivh), (''data'', JString datah), (''authTag'', JString tagh)])"
  shows "decrypt lib key encrypted =
     (if \<not> createDecipheriv lib key (fromHex ivh) then Inl (Error ''Invalid initialization vector'')
      else if \<not> setAuthTag lib (fromHex tagh) then Inl (Error ''Invalid authentication tag length'')
      else (case decipherGCM lib key (fromHex ivh) (fromHex tagh) (fromHex datah) of
              None \<Rightarrow> Inl (Error ''Unsupported state or unable to authenticate data'')
            | Some decrypted \<Rightarrow>
                (case JSON_parse lib (utf8Decode decrypted) of
                   None \<Rightarrow> Inl (SyntaxError ''Unexpected token'')
                 | Some v \<Rightarrow> Inr v)))"
  using assms by (simp add: decrypt_def)

lemma decrypt_encrypt:
  assumes "jsonRoundTrip lib x" "jsonRoundTrip lib (encryptedRecord lib key iv x)"
    "gcmRoundTrip lib key iv (utf8Encode (JSON_stringify lib x))"
  shows "decrypt lib key (encrypt lib key iv x) = Inr x"
proof -
  obtain c t where ct: "cipherGCM lib key iv (utf8Encode (JSON_stringify lib x)) = (c, t)"
    by (cases "cipherGCM lib key iv (utf8Encode (JSON_stringify lib x))") auto
  have r: "encryptedRecord lib key iv x =
      JObject [(''iv'', JString (toHex iv)), (''data'', JString (toHex c)),
               (''authTag'', JString (toHex t))]"
    by (simp add: encryptedRecord_def ct)
  have p: "JSON_parse lib (encrypt lib key iv x) =
      Some (JObject [(''iv'', JString (toHex iv)), (''data'', JString (toHex c)),
                     (''authTag'', JString (toHex t))])"
    using assms(2) by (simp add: jsonRoundTrip_def encrypt_def r)
  have g: "createDecipheriv lib key iv" "setAuthTag lib t"
    "decipherGCM lib key iv t c = Some (utf8Encode (JSON_stringify lib x))"
    using assms(3) by (simp_all add: gcmRoundTrip_def ct)
  have j: "JSON_parse lib (JSON_stringify lib x) = Some x"
    using assms(1) by (simp add: jsonRoundTrip_def)
  show ?thesis
    by (simp add: decrypt_of_record [OF p] fromHex_toHex g utf8Decode_utf8Encode j)
qed

text \<open>
  Claim C1. For a configuration object that \<open>JSON.parse\<close> gives back from its
  \<open>JSON.stringify\<close> text (a valid one), on a platform whose JSON functions also give back
  the record that \<open>encrypt\<close> serialises and whose AES-GCM decryption inverts its encryption
  under the same key, nonce and tag, \<open>decrypt\<close> of \<open>encrypt x\<close> under the same key is \<open>x\<close>,
  whatever nonce \<open>encrypt\<close> drew.
\<close>

theorem decrypt_encrypt_roundtrip:
  "jsonRoundTrip lib x \<and> jsonRoundTrip lib (encryptedRecord lib key iv x) \<and>
   gcmRoundTrip lib key iv (utf8Encode (JSON_stringify lib x)) \<longrightarrow>
     decrypt lib key (encrypt lib key iv x) = Inr x"
  using decrypt_encrypt [of lib x key iv] by blast

lemma miniLibrary_roundtrips:
  "jsonRoundTrip miniLibrary config0 \<and>
   jsonRoundTrip miniLibrary (encryptedRecord miniLibrary key0 iv0 config0) \<and>
   gcmRoundTrip miniLibrary key0 iv0 (utf8Encode (JSON_stringify miniLibrary config0))"
  by code_simp

lemma miniLibrary_record0: "encryptedRecord miniLibrary key0 iv0 config0 = record0"
  by code_simp

theorem decrypt_encrypt_roundtrip_witness:
  "jsonRoundTrip miniLibrary config0 \<and>
   jsonRoundTrip miniLibrary (encryptedRecord miniLibrary key0 iv0 config0) \<and>
   gcmRoundTrip miniLibrary key0 iv0 (utf8Encode (JSON_stringify miniLibrary config0)) \<and>
   encryptedRecord miniLibrary key0 iv0 config0 = record0 \<and>
   decrypt miniLibrary key0 (encrypt miniLibrary key0 iv0 config0) = Inr config0"
  using decrypt_encrypt_roundtrip [of miniLibrary config0 key0 iv0] miniLibrary_roundtrips
    miniLibrary_record0
  by blast

text \<open>
  Claim C2 fails on the code at a record whose tag is cut short. \<open>decrypt\<close> calls
  \<open>createDecipheriv\<close> without \<open>authTagLength\<close>, so the platform accepts a tag of four
  bytes and compares four bytes only. On the platform with that tag handling: the record
  that \<open>encrypt\<close> writes for a configuration carries a tag of 16 bytes; the record with the
  same nonce and data and only the first four bytes of that tag, which \<open>encrypt\<close> did not
  write, is decrypted by \<open>decrypt\<close> to the configuration, with no error; a tag of full
  length that differs in its first byte is rejected.
\<close>

theorem decrypt_accepts_truncated_tag:
  "encrypt defaultTagLibrary key0 iv0 config0 = JSON_stringify defaultTagLibrary recordWide \<and>
   JSON_stringify defaultTagLibrary recordShortTag \<noteq> JSON_stringify defaultTagLibrary recordWide \<and>
   fromHex ''2a2b2c2d'' = take 4 (fromHex ''2a2b2c2d2e2f30313233343536373839'') \<and>
   decrypt defaultTagLibrary key0 (JSON_stringify defaultTagLibrary recordWide) = Inr config0 \<and>
   decrypt defaultTagLibrary key0 (JSON_stringify defaultTagLibrary recordShortTag) = Inr config0 \<and>
   decrypt defaultTagLibrary key0 (JSON_stringify defaultTagLibrary recordWrongTag) =
     Inl (Error ''Unsupported state or unable to authenticate data'')"
  by code_simp


subsection \<open>Channel repository\<close>












end
